theory Spec2Isabelle
  imports Main "HOL-Library.Sublist" "HOL-Library.Product_Lexorder"
begin

section \<open>The browser extension (content script and background worker)\<close>

subsection \<open>JavaScript strings and errors\<close>

text \<open>
  Strings are lists of characters with codes below 256. \<open>String.prototype.trim\<close> removes
  white space and line terminators from both ends; of these, the ones in this range are
  TAB, LF, VT, FF, CR, the space and the no-break space U+00A0.
\<close>

definition is_white_space :: "char \<Rightarrow> bool" where
  "is_white_space c =
     (c \<in> set [CHR 0x09, CHR 0x0A, CHR 0x0B, CHR 0x0C, CHR 0x0D, CHR 0x20, CHR 0xA0])"

definition trim :: "string \<Rightarrow> string" where
  "trim s = rev (dropWhile is_white_space (rev (dropWhile is_white_space s)))"

definition startsWith :: "string \<Rightarrow> string \<Rightarrow> bool" where
  "startsWith s p = (take (length p) s = p)"

text \<open>A thrown exception: \<open>new Error(message)\<close>, or a \<open>TypeError\<close> or
  \<open>SyntaxError\<close> of the engine.\<close>

datatype js_error = Error string | TypeError string | SyntaxError string

fun message :: "js_error \<Rightarrow> string" where
  "message (Error m) = m"
| "message (TypeError m) = m"
| "message (SyntaxError m) = m"

text \<open>Sequencing of steps that can throw: the first exception ends the sequence.\<close>

definition and_then :: "'e + 'a \<Rightarrow> ('a \<Rightarrow> 'e + 'b) \<Rightarrow> 'e + 'b" where
  "and_then r f = (case r of Inl e \<Rightarrow> Inl e | Inr v \<Rightarrow> f v)"

subsection \<open>The DOM the content script reads\<close>

text \<open>
  A page is a tree of elements and text nodes. An element is handled together with its
  chain of ancestors (nearest first), because a selector such as \<open>.name h3\<close> or
  \<open>div > .card\<close> is matched against the whole document even when the query starts at
  an inner element. Tag names are kept in lower case.
\<close>

datatype node = Element string "string list" "node list" | TextNode string

type_synonym element = "node list \<times> node"

fun tagName :: "node \<Rightarrow> string" where
  "tagName (Element t cs ks) = t"
| "tagName (TextNode s) = []"

fun classList :: "node \<Rightarrow> string list" where
  "classList (Element t cs ks) = cs"
| "classList (TextNode s) = []"

fun childNodes :: "node \<Rightarrow> node list" where
  "childNodes (Element t cs ks) = ks"
| "childNodes (TextNode s) = []"

fun is_element :: "node \<Rightarrow> bool" where
  "is_element (Element t cs ks) = True"
| "is_element (TextNode s) = False"

fun textContent :: "node \<Rightarrow> string" where
  "textContent (TextNode s) = s"
| "textContent (Element t cs ks) = concat (map textContent ks)"

text \<open>The elements of a subtree in document order (pre-order), the root included.\<close>

fun elements_of :: "node list \<Rightarrow> node \<Rightarrow> element list" where
  "elements_of anc (TextNode s) = []"
| "elements_of anc (Element t cs ks) =
     (anc, Element t cs ks) # concat (map (elements_of (Element t cs ks # anc)) ks)"

definition descendants :: "element \<Rightarrow> element list" where
  "descendants el = concat (map (elements_of (snd el # fst el)) (childNodes (snd el)))"

text \<open>
  The selectors the program uses: a class (\<open>.coord\<close>), a tag (\<open>div\<close>, \<open>h3\<close>), and
  two of these joined by the child combinator (\<open>div > .card\<close>) or by the descendant
  combinator (\<open>.name h3\<close>).
\<close>

datatype simple_selector = ClassSel string | TagSel string

datatype selector =
    Simple simple_selector
  | Child simple_selector simple_selector
  | Descendant simple_selector simple_selector

fun matches_simple :: "node \<Rightarrow> simple_selector \<Rightarrow> bool" where
  "matches_simple n (ClassSel c) = (is_element n \<and> c \<in> set (classList n))"
| "matches_simple n (TagSel g) = (is_element n \<and> tagName n = g)"

fun matches :: "element \<Rightarrow> selector \<Rightarrow> bool" where
  "matches (anc, n) (Simple s) = matches_simple n s"
| "matches (anc, n) (Child p s) =
     (matches_simple n s \<and> (case anc of [] \<Rightarrow> False | par # _ \<Rightarrow> matches_simple par p))"
| "matches (anc, n) (Descendant a s) =
     (matches_simple n s \<and> (\<exists>x \<in> set anc. matches_simple x a))"

definition querySelectorAll :: "element \<Rightarrow> selector \<Rightarrow> element list" where
  "querySelectorAll el sel = filter (\<lambda>e. matches e sel) (descendants el)"

definition querySelector :: "element \<Rightarrow> selector \<Rightarrow> element option" where
  "querySelector el sel = find (\<lambda>e. matches e sel) (descendants el)"

text \<open>\<open>document.querySelector\<close>: the document is given by its root element.\<close>

definition document_querySelector :: "node \<Rightarrow> selector \<Rightarrow> element option" where
  "document_querySelector root sel = find (\<lambda>e. matches e sel) (elements_of [] root)"

subsection \<open>parseCharacterCard\<close>

record character =
  name :: string
  profession :: string
  coord :: string
  label :: string
  hint :: "string option"

text \<open>
  The result is \<open>None\<close> for JavaScript's \<open>null\<close>. The three early returns, the label
  decision and the optional hint follow the source line by line.
\<close>

definition card_label :: "element \<Rightarrow> string" where
  "card_label cardElement =
     (if ''flipped'' \<in> set (classList (snd cardElement)) then
        (if ''innocent'' \<in> set (classList (snd cardElement)) then ''innocent''
         else if ''criminal'' \<in> set (classList (snd cardElement)) then ''criminal''
         else ''unknown'')
      else ''unknown'')"

definition card_hint :: "element \<Rightarrow> string option" where
  "card_hint cardElement =
     (case querySelector cardElement (Simple (ClassSel ''hint'')) of
        None \<Rightarrow> None
      | Some hintElement \<Rightarrow> Some (trim (textContent (snd hintElement))))"

definition parseCharacterCard :: "element \<Rightarrow> character option" where
  "parseCharacterCard cardElement =
     (case querySelector cardElement (Simple (ClassSel ''coord'')) of
        None \<Rightarrow> None
      | Some coordElement \<Rightarrow>
         (case querySelector cardElement (Descendant (ClassSel ''name'') (TagSel ''h3'')) of
            None \<Rightarrow> None
          | Some nameElement \<Rightarrow>
             (case querySelector cardElement (Simple (ClassSel ''profession'')) of
                None \<Rightarrow> None
              | Some professionElement \<Rightarrow>
                 Some \<lparr> name = trim (textContent (snd nameElement)),
                        profession = trim (textContent (snd professionElement)),
                        coord = trim (textContent (snd coordElement)),
                        label = card_label cardElement,
                        hint = card_hint cardElement \<rparr>)))"

subsection \<open>parseGameState\<close>

record game_state =
  characters :: "character list"

text \<open>
  The loop over the cards, with the \<open>try\<close>/\<open>catch\<close> around each card: a card whose
  parser throws (\<open>Inl\<close>) or returns \<open>null\<close> leaves the state as it is, any other card is
  pushed at the end of \<open>characters\<close>. The card parser is a parameter of the loop, so that
  the \<open>catch\<close> branch is part of the model; \<open>parseGameState\<close> runs the loop with
  \<open>parseCharacterCard\<close>, which never throws.
\<close>

fun parse_cards ::
  "(element \<Rightarrow> js_error + character option) \<Rightarrow> element list \<Rightarrow> game_state \<Rightarrow> game_state" where
  "parse_cards parser [] gameState = gameState"
| "parse_cards parser (cardElement # cards) gameState =
     parse_cards parser cards
       (case parser cardElement of
          Inl err \<Rightarrow> gameState
        | Inr None \<Rightarrow> gameState
        | Inr (Some c) \<Rightarrow> gameState\<lparr>characters := characters gameState @ [c]\<rparr>)"

definition parseGameState_with ::
  "(element \<Rightarrow> js_error + character option) \<Rightarrow> node \<Rightarrow> js_error + game_state" where
  "parseGameState_with parser document =
     (case document_querySelector document (Simple (ClassSel ''card-grid'')) of
        None \<Rightarrow> Inl (Error ''Game grid not found on page'')
      | Some gridContainer \<Rightarrow>
          Inr (parse_cards parser
                 (querySelectorAll gridContainer (Child (TagSel ''div'') (ClassSel ''card'')))
                 \<lparr>characters = []\<rparr>))"

definition parseGameState :: "node \<Rightarrow> js_error + game_state" where
  "parseGameState document = parseGameState_with (\<lambda>cardElement. Inr (parseCharacterCard cardElement)) document"

text \<open>The characters a list of cards contributes: those parsed without an exception and
  not \<open>null\<close>, in the order of the cards.\<close>

fun parsed_character :: "js_error + character option \<Rightarrow> character list" where
  "parsed_character (Inl err) = []"
| "parsed_character (Inr None) = []"
| "parsed_character (Inr (Some c)) = [c]"


subsection \<open>JavaScript values\<close>

text \<open>
  The values that flow through the extension's messages and JSON replies. \<open>JNative\<close> is
  a built-in function or object of the engine, known by its name only. Numbers are the
  integers of magnitude below 10^21, which JavaScript prints as their decimal digits
  (JSON's other numbers, and the exponent form of larger ones, are outside this model).
\<close>

datatype jsval =
    JUndefined
  | JNull
  | JBool bool
  | JNum int
  | JStr string
  | JArr "jsval list"
  | JObj "(string \<times> jsval) list"
  | JNative string

fun truthy :: "jsval \<Rightarrow> bool" where
  "truthy JUndefined = False"
| "truthy JNull = False"
| "truthy (JBool b) = b"
| "truthy (JNum n) = (n \<noteq> 0)"
| "truthy (JStr s) = (s \<noteq> [])"
| "truthy (JArr xs) = True"
| "truthy (JObj fs) = True"
| "truthy (JNative n) = True"

text \<open>\<open>a || b\<close>.\<close>

definition js_or :: "jsval \<Rightarrow> jsval \<Rightarrow> jsval" where
  "js_or a b = (if truthy a then a else b)"

text \<open>
  What every object inherits from \<open>Object.prototype\<close> in Chrome's engine: a property
  read on an object literal that has no such own property finds these.
\<close>

definition object_prototype :: "(string \<times> jsval) list" where
  "object_prototype =
     [(''constructor'', JNative ''Object''),
      (''__defineGetter__'', JNative ''Object.prototype.__defineGetter__''),
      (''__defineSetter__'', JNative ''Object.prototype.__defineSetter__''),
      (''hasOwnProperty'', JNative ''Object.prototype.hasOwnProperty''),
      (''__lookupGetter__'', JNative ''Object.prototype.__lookupGetter__''),
      (''__lookupSetter__'', JNative ''Object.prototype.__lookupSetter__''),
      (''isPrototypeOf'', JNative ''Object.prototype.isPrototypeOf''),
      (''propertyIsEnumerable'', JNative ''Object.prototype.propertyIsEnumerable''),
      (''toString'', JNative ''Object.prototype.toString''),
      (''valueOf'', JNative ''Object.prototype.valueOf''),
      (''__proto__'', JNative ''Object.prototype''),
      (''toLocaleString'', JNative ''Object.prototype.toLocaleString'')]"

text \<open>\<open>obj[key]\<close> on an object: own properties first, then the prototype's.\<close>

definition object_get :: "(string \<times> jsval) list \<Rightarrow> string \<Rightarrow> jsval" where
  "object_get fs k =
     (case map_of fs k of
        Some v \<Rightarrow> v
      | None \<Rightarrow> (case map_of object_prototype k of Some v \<Rightarrow> v | None \<Rightarrow> JUndefined))"

text \<open>
  \<open>v.key\<close> on any value: a \<open>TypeError\<close> on \<open>undefined\<close> and \<open>null\<close>. On strings,
  numbers, booleans and arrays the result is \<open>undefined\<close>: the property names this program
  reads (\<open>success\<close>, \<open>error\<close>, \<open>result\<close>, \<open>screenshot\<close>, \<open>recommendation\<close>,
  \<open>character\<close>, \<open>label\<close>, \<open>reasoning\<close>, \<open>confidence\<close>) are none of their built-in
  ones.
\<close>

fun get_property :: "jsval \<Rightarrow> string \<Rightarrow> js_error + jsval" where
  "get_property JUndefined k =
     Inl (TypeError (''Cannot read properties of undefined (reading '' @ [CHR 0x27] @ k @ [CHR 0x27] @ '')''))"
| "get_property JNull k =
     Inl (TypeError (''Cannot read properties of null (reading '' @ [CHR 0x27] @ k @ [CHR 0x27] @ '')''))"
| "get_property (JObj fs) k = Inr (object_get fs k)"
| "get_property v k = Inr JUndefined"

text \<open>Decimal digits of a number, as a template literal or \<open>String(n)\<close> prints them.\<close>

definition digit_char :: "nat \<Rightarrow> char" where
  "digit_char d = char_of (48 + d)"

function string_of_nat :: "nat \<Rightarrow> string" where
  "string_of_nat n =
     (if n < 10 then [digit_char n] else string_of_nat (n div 10) @ [digit_char (n mod 10)])"
  by pat_completeness auto
termination
  by (relation "measure id") auto

definition string_of_int :: "int \<Rightarrow> string" where
  "string_of_int i = (if i < 0 then CHR ''-'' # string_of_nat (nat (- i)) else string_of_nat (nat i))"

fun join_with :: "string \<Rightarrow> string list \<Rightarrow> string" where
  "join_with sep [] = []"
| "join_with sep [s] = s"
| "join_with sep (s # t # ss) = s @ sep @ join_with sep (t # ss)"

text \<open>
  \<open>ToString\<close> on the values of this model. An array prints its elements joined by commas,
  \<open>null\<close> and \<open>undefined\<close> elements as nothing. An object prints as
  \<open>[object Object]\<close> through the inherited \<open>toString\<close>; an own \<open>toString\<close> property
  that is data, as parsed JSON can hold, is not callable, and then the conversion is a
  \<open>TypeError\<close>.
\<close>

fun first_error :: "(js_error + 'a) list \<Rightarrow> js_error + 'a list" where
  "first_error [] = Inr []"
| "first_error (Inl e # rs) = Inl e"
| "first_error (Inr v # rs) = (case first_error rs of Inl e \<Rightarrow> Inl e | Inr vs \<Rightarrow> Inr (v # vs))"

fun to_string :: "jsval \<Rightarrow> js_error + string" where
  "to_string JUndefined = Inr ''undefined''"
| "to_string JNull = Inr ''null''"
| "to_string (JBool b) = Inr (if b then ''true'' else ''false'')"
| "to_string (JNum n) = Inr (string_of_int n)"
| "to_string (JStr s) = Inr s"
| "to_string (JNative n) = Inr n"
| "to_string (JObj fs) =
     (if ''toString'' \<in> set (map fst fs)
      then Inl (TypeError ''Cannot convert object to primitive value'')
      else Inr ''[object Object]'')"
| "to_string (JArr xs) =
     (case first_error
             (map (\<lambda>x. if x = JUndefined \<or> x = JNull then Inr [] else to_string x) xs) of
        Inl e \<Rightarrow> Inl e
      | Inr ss \<Rightarrow> Inr (join_with '','' ss))"

text \<open>
  \<open>new Error(v)\<close>: the message is \<open>ToString(v)\<close>, and empty when \<open>v\<close> is
  \<open>undefined\<close>. The conversion itself can throw (\<open>Inl\<close>).
\<close>

definition new_Error :: "jsval \<Rightarrow> js_error + js_error" where
  "new_Error v =
     (if v = JUndefined then Inr (Error [])
      else and_then (to_string v) (\<lambda>m. Inr (Error m)))"

subsection \<open>The background worker: analyzeWithClaude and analyzeWithOpenAI\<close>

text \<open>The prompt, the same text in both functions (and in the content script's copy).\<close>

definition prompt_lines :: "string list" where
  "prompt_lines =
     [''This is a screenshot of a Clues puzzle game by Sam. The game has a 5x4 grid of characters arranged in rows and columns.'',
      '''',
      ''GRID LAYOUT:'',
      ''- 5 rows (numbered 1-5 from top to bottom)'',
      ''- 4 columns (lettered A-D from left to right)'',
      ''- Each cell contains a character with their name and occupation'',
      '''',
      ''SPATIAL RELATIONSHIPS:'',
      ''- \"Above\" = in a higher row (smaller row number, 1 is the top row)'',
      ''- \"Below\" = in a lower row (larger row number, 5 is the bottom row)  '',
      ''- \"Left\" = in a column to the left (A is leftmost)'',
      ''- \"Right\" = in a column to the right (D is rightmost)'',
      ''- \"Directly above/below\" = same column, adjacent row (1 is above 2, 2 is below 1)'',
      ''- \"Neighbors\" = adjacent cells (including diagonals, each cell has up to 8 neighbors)'',
      '''',
      ''VISUAL INDICATORS:'',
      ''- Green background = known innocent'',
      ''- Red background = known criminal'',
      ''- Gray background = unknown (need to determine)'',
      ''- Character names are clearly visible in each cell'',
      ''- Hints/clues are visible as text on the known characters'',
      '''',
      ''GAME RULES:'',
      ''- Everyone is either criminal or innocent'',
      ''- Everyone tells the truth, even criminals'',
      ''- You can only make moves that are 100% logically certain'',
      ''- Read all visible hints carefully for spatial clues'',
      '''',
      ''TASK: Analyze this board and find ONE UNKNOWN character (gray background) that can be determined with absolute logical certainty based on the hints from the known characters (green/red backgrounds).'',
      '''',
      ''IMPORTANT: '',
      ''- Only recommend moves for characters with GRAY backgrounds (unknown)'',
      ''- DO NOT recommend moves for characters with GREEN (innocent) or RED (criminal) backgrounds'',
      ''- Use the hints from known characters to deduce unknown characters'',
      ''- Pay close attention to character names and their exact positions when interpreting spatial hints like \"directly below\", \"above\", etc.'',
      '''',
      ''Return JSON in this exact format:'',
      ''{'',
      ''  \"character\": \"ExactCharacterName\", '',
      ''  \"label\": \"criminal\" or \"innocent\",'',
      ''  \"reasoning\": \"detailed explanation including spatial analysis and which known character's hint led to this conclusion\",'',
      ''  \"confidence\": \"high\"'',
      ''}'',
      '''',
      ''Only suggest a move if you are completely certain. If no certain move exists, return {\"error\": \"No certain moves available\"}.'']"

definition prompt :: string where
  "prompt = join_with [CHR 0x0A] prompt_lines"

text \<open>\<open>String.prototype.includes\<close>.\<close>

fun includes_str :: "string \<Rightarrow> string \<Rightarrow> bool" where
  "includes_str [] t = (t = [])"
| "includes_str (c # s) t = (startsWith (c # s) t \<or> includes_str s t)"

text \<open>
  The request a function hands to \<open>fetch\<close>: the address, the API key in its header, and
  the fields of the JSON body. \<open>model\<close> is the value put under the body's \<open>model\<close> key.
\<close>

record request =
  url :: string
  api_key :: string
  model :: jsval
  max_tokens :: nat
  prompt_text :: string
  image_data :: string

text \<open>
  What a run of the function did: the requests it issued, in order, and how it ended
  (\<open>Inl\<close>: it threw).
\<close>

type_synonym 'a run = "request list \<times> (js_error + 'a)"

definition modelMapping :: "(string \<times> jsval) list" where
  "modelMapping =
     [(''claude-sonnet-4'', JStr ''claude-sonnet-4-20250514''),
      (''claude-opus-4-1'', JStr ''claude-opus-4-1-20250805'')]"

definition claudeModel :: "string \<Rightarrow> jsval" where
  "claudeModel modelName =
     js_or (object_get modelMapping modelName) (JStr ''claude-sonnet-4-20250514'')"

text \<open>
  The end of both functions, from the parsed reply \<open>result\<close>: \<open>result.error\<close>, when
  truthy, is thrown; otherwise the four fields are copied, \<open>confidence\<close> with its
  default.
\<close>

definition recommendation_of :: "jsval \<Rightarrow> js_error + jsval" where
  "recommendation_of result =
     and_then (get_property result ''error'') (\<lambda>err.
       if truthy err then and_then (new_Error err) Inl
       else
         and_then (get_property result ''character'') (\<lambda>character.
         and_then (get_property result ''label'') (\<lambda>label.
         and_then (get_property result ''reasoning'') (\<lambda>reasoning.
         and_then (get_property result ''confidence'') (\<lambda>confidence.
           Inr (JObj [(''character'', character),
                      (''label'', label),
                      (''reasoning'', reasoning),
                      (''confidence'', js_or confidence (JStr ''medium''))]))))))"

text \<open>
  \<open>analyzeWithClaude\<close>. The parameter \<open>reply\<close> stands for the network and the text
  processing between the \<open>fetch\<close> call and \<open>JSON.parse\<close> (the HTTP status check, the regular
  expressions): given the request, either an exception or the parsed \<open>result\<close>. The key
  check stands before the \<open>try\<close> block, so its exception is not rewrapped; every
  exception of the \<open>try\<close> block is.
\<close>

definition analyzeWithClaude ::
  "(request \<Rightarrow> js_error + jsval) \<Rightarrow> string \<Rightarrow> string \<Rightarrow> string \<Rightarrow> jsval run" where
  "analyzeWithClaude reply screenshot apiKey modelName =
     (if \<not> startsWith apiKey ''sk-ant-'' then
        ([], Inl (Error ''Invalid Anthropic API key format. Must start with \"sk-ant-\"''))
      else
        let req = \<lparr> url = ''https://api.anthropic.com/v1/messages'',
                    api_key = apiKey,
                    model = claudeModel modelName,
                    max_tokens = 1000,
                    prompt_text = prompt,
                    image_data = screenshot \<rparr>
        in ([req],
            (case and_then (reply req) recommendation_of of
               Inl fetchError \<Rightarrow> Inl (Error (''Claude API fetch failed: '' @ message fetchError))
             | Inr r \<Rightarrow> Inr r)))"

text \<open>\<open>analyzeWithOpenAI\<close> of the background worker: no key check, no rewrapping.\<close>

definition analyzeWithOpenAI ::
  "(request \<Rightarrow> js_error + jsval) \<Rightarrow> string \<Rightarrow> string \<Rightarrow> jsval run" where
  "analyzeWithOpenAI reply screenshot apiKey =
     (let req = \<lparr> url = ''https://api.openai.com/v1/chat/completions'',
                   api_key = apiKey,
                   model = JStr ''gpt-4o'',
                   max_tokens = 1000,
                   prompt_text = prompt,
                   image_data = ''data:image/png;base64,'' @ screenshot \<rparr>
      in ([req], and_then (reply req) recommendation_of))"

subsection \<open>The content script: handleSolveMove and its message listener\<close>

text \<open>
  An awaited promise resolves, rejects, or never settles. A callback that throws before
  it calls \<open>resolve\<close> or \<open>reject\<close> leaves its promise pending for ever.
\<close>

datatype 'a promise = Resolved 'a | Rejected js_error | Pending

definition await :: "'a promise \<Rightarrow> ('a \<Rightarrow> 'b promise) \<Rightarrow> 'b promise" where
  "await p f = (case p of Resolved v \<Rightarrow> f v | Rejected e \<Rightarrow> Rejected e | Pending \<Rightarrow> Pending)"

text \<open>A synchronous step inside an \<open>async\<close> function: its exception rejects the promise.\<close>

definition throwing :: "js_error + 'a \<Rightarrow> 'a promise" where
  "throwing r = (case r of Inl e \<Rightarrow> Rejected e | Inr v \<Rightarrow> Resolved v)"

text \<open>A synchronous step inside a message callback: its exception is lost, and the
  promise the callback was to settle stays pending.\<close>

definition in_callback :: "js_error + 'a \<Rightarrow> ('a \<Rightarrow> 'b promise) \<Rightarrow> 'b promise" where
  "in_callback r f = (case r of Inl e \<Rightarrow> Pending | Inr v \<Rightarrow> f v)"

text \<open>
  What the callback of \<open>chrome.runtime.sendMessage\<close> finds: \<open>chrome.runtime.lastError\<close>
  (its message, when set) and the \<open>response\<close> argument.
\<close>

record message_reply =
  lastError :: "string option"
  response :: jsval

text \<open>
  What \<open>fetch\<close> gives: a network failure (the promise rejects with a \<open>TypeError\<close>), or a
  response with \<open>ok\<close>, \<open>status\<close>, \<open>statusText\<close> and its body as \<open>response.json()\<close>
  reads it (\<open>Inl\<close>: the body is not JSON, and the promise rejects with a \<open>SyntaxError\<close>).
\<close>

datatype fetch_result =
    NetworkFailure string
  | Response bool nat string "string + jsval"

text \<open>
  Everything outside the content script that one run of \<open>handleSolveMove\<close> reads: the
  page, the Python server, and the background worker's answers to the three messages.
\<close>

record env =
  document :: node
  python_server :: "character list \<Rightarrow> fetch_result"
  screenshot_reply :: message_reply
  claude_reply :: "jsval \<Rightarrow> string \<Rightarrow> string \<Rightarrow> message_reply"
  openai_reply :: "jsval \<Rightarrow> string \<Rightarrow> message_reply"

definition analyzeWithPythonServer :: "env \<Rightarrow> game_state \<Rightarrow> jsval promise" where
  "analyzeWithPythonServer env gameState =
     (case python_server env (characters gameState) of
        NetworkFailure m \<Rightarrow> Rejected (TypeError m)
      | Response ok status statusText body \<Rightarrow>
          if \<not> ok then
            Rejected (Error (''Server error: '' @ string_of_nat status @ '' '' @ statusText))
          else
            (case body of
               Inl m \<Rightarrow> Rejected (SyntaxError m)
             | Inr data \<Rightarrow>
                 throwing
                   (and_then (get_property data ''success'') (\<lambda>success.
                      if \<not> truthy success then
                        and_then (get_property data ''error'') (\<lambda>err.
                          and_then (new_Error (js_or err (JStr ''Server analysis failed''))) Inl)
                      else get_property data ''recommendation''))))"

definition takeScreenshot :: "env \<Rightarrow> jsval promise" where
  "takeScreenshot env =
     (let response = response (screenshot_reply env) in
      in_callback (get_property response ''success'') (\<lambda>success.
        if truthy success then
          in_callback (get_property response ''screenshot'') Resolved
        else
          in_callback (get_property response ''error'') (\<lambda>err.
            in_callback (new_Error (js_or err (JStr ''Failed to take screenshot''))) Rejected)))"

definition analyzeWithClaudeViaBackground ::
  "env \<Rightarrow> jsval \<Rightarrow> string \<Rightarrow> string \<Rightarrow> jsval promise" where
  "analyzeWithClaudeViaBackground env screenshot apiKey modelName =
     (let r = claude_reply env screenshot apiKey modelName; response = response r in
      case lastError r of
        Some m \<Rightarrow> Rejected (Error m)
      | None \<Rightarrow>
          if truthy response then
            in_callback (get_property response ''success'') (\<lambda>success.
              if truthy success then in_callback (get_property response ''result'') Resolved
              else
                in_callback (get_property response ''error'') (\<lambda>err.
                  in_callback (new_Error (js_or err (JStr ''Unknown error from background script'')))
                    Rejected))
          else
            in_callback
              (new_Error
                 (js_or (if response = JUndefined \<or> response = JNull then JUndefined
                         else (case get_property response ''error'' of Inr err \<Rightarrow> err | Inl e \<Rightarrow> JUndefined))
                        (JStr ''Unknown error from background script'')))
              Rejected)"

definition analyzeWithOpenAIViaBackground :: "env \<Rightarrow> jsval \<Rightarrow> string \<Rightarrow> jsval promise" where
  "analyzeWithOpenAIViaBackground env screenshot apiKey =
     (let r = openai_reply env screenshot apiKey; response = response r in
      case lastError r of
        Some m \<Rightarrow> Rejected (Error m)
      | None \<Rightarrow>
          in_callback (get_property response ''success'') (\<lambda>success.
            if truthy success then in_callback (get_property response ''result'') Resolved
            else
              in_callback (get_property response ''error'') (\<lambda>err.
                in_callback (new_Error err) Rejected)))"

text \<open>
  \<open>handleSolveMove(apiKey, solverMode = 'gpt-4o')\<close>: \<open>None\<close> is a missing
  \<open>solverMode\<close>. The \<open>catch\<close> block rethrows what it caught, so it changes nothing. The
  object literal reads \<open>analysis.character\<close> first, so a missing \<open>analysis\<close> is a
  \<open>TypeError\<close> there.
\<close>

definition handleSolveMove :: "env \<Rightarrow> string \<Rightarrow> string option \<Rightarrow> jsval promise" where
  "handleSolveMove env apiKey solverModeArg =
     (let solverMode = (case solverModeArg of None \<Rightarrow> ''gpt-4o'' | Some m \<Rightarrow> m) in
      if solverMode = ''python'' then
        await (throwing (parseGameState (document env))) (\<lambda>gameState.
        await (analyzeWithPythonServer env gameState) (\<lambda>analysis.
          throwing
            (and_then (get_property analysis ''character'') (\<lambda>character.
             and_then (get_property analysis ''label'') (\<lambda>label.
             and_then (get_property analysis ''reasoning'') (\<lambda>reasoning.
             and_then (get_property analysis ''confidence'') (\<lambda>confidence.
               Inr (JObj [(''success'', JBool True),
                          (''character'', character),
                          (''label'', label),
                          (''reasoning'', reasoning),
                          (''confidence'', confidence),
                          (''source'', JStr ''py-analyzer'')]))))))))
      else
        await (takeScreenshot env) (\<lambda>screenshot.
        await (if startsWith solverMode ''claude''
               then analyzeWithClaudeViaBackground env screenshot apiKey solverMode
               else analyzeWithOpenAIViaBackground env screenshot apiKey) (\<lambda>analysis.
          throwing
            (and_then (get_property analysis ''character'') (\<lambda>character.
             and_then (get_property analysis ''label'') (\<lambda>label.
             and_then (get_property analysis ''reasoning'') (\<lambda>reasoning.
             and_then (get_property analysis ''confidence'') (\<lambda>confidence.
               Inr (JObj [(''success'', JBool True),
                          (''character'', character),
                          (''label'', label),
                          (''reasoning'', reasoning),
                          (''confidence'', js_or confidence (JStr ''medium'')),
                          (''source'', JStr solverMode)])))))))))"

text \<open>
  The listener's answer to a \<open>solveMove\<close> message: the resolved object, or the failure
  object built in its \<open>catch\<close>; \<open>None\<close> when \<open>sendResponse\<close> is never called.
\<close>

definition solveMove_response :: "env \<Rightarrow> string \<Rightarrow> string option \<Rightarrow> jsval option" where
  "solveMove_response env apiKey solverModeArg =
     (case handleSolveMove env apiKey solverModeArg of
        Resolved result \<Rightarrow> Some result
      | Rejected err \<Rightarrow>
          Some (JObj [(''success'', JBool False),
                      (''error'', js_or (JStr (message err)) (JStr ''An unexpected error occurred''))])
      | Pending \<Rightarrow> None)"

subsection \<open>Shapes of the listener's answers\<close>

text \<open>
  The outcome kinds the specification lists, and the test that an object carries one of
  them as the value of a field. A success record and a failure record are the two object
  shapes the listener builds.
\<close>

definition outcome_kinds :: "string list" where
  "outcome_kinds = [''CERTAIN_MOVE'', ''NO_CERTAIN_MOVE'', ''UNSAT'', ''TIMED_OUT'']"

definition carries_outcome_kind :: "jsval \<Rightarrow> bool" where
  "carries_outcome_kind r =
     (case r of
        JObj fs \<Rightarrow> list_ex (\<lambda>kv. list_ex (\<lambda>k. snd kv = JStr k) outcome_kinds) fs
      | _ \<Rightarrow> False)"

definition is_success_record :: "jsval \<Rightarrow> bool" where
  "is_success_record r =
     (case r of
        JObj fs \<Rightarrow>
          map fst fs = [''success'', ''character'', ''label'', ''reasoning'', ''confidence'', ''source'']
          \<and> map_of fs ''success'' = Some (JBool True)
      | _ \<Rightarrow> False)"

definition is_failure_record :: "jsval \<Rightarrow> bool" where
  "is_failure_record r =
     (case r of
        JObj fs \<Rightarrow>
          map fst fs = [''success'', ''error''] \<and> map_of fs ''success'' = Some (JBool False) \<and>
          (case map_of fs ''error'' of Some (JStr m) \<Rightarrow> m \<noteq> [] | _ \<Rightarrow> False)
      | _ \<Rightarrow> False)"

subsection \<open>What the prompt says about the grid\<close>

definition states_5x4_grid :: "string \<Rightarrow> bool" where
  "states_5x4_grid t =
     (includes_str t ''5x4 grid'' \<and> includes_str t ''5 rows'' \<and> includes_str t ''4 columns'')"


section \<open>The deduction core, modelled from the specification\<close>

text \<open>
  The repository holds the extension only. The expression language, its expander and
  evaluator and the deduction solver exist as a specification and an API reference; the
  definitions of this section follow their words.
\<close>

text \<open>
  Modelled from the spec: the data model of section 3, of which the repository holds no
  code. A Label is one of two values; Unresolved is a third marker that exists only as the
  stored state of an entity and is no Label.
\<close>

datatype label = Innocent | Criminal

datatype label_state = Known label | Unresolved

text \<open>
  Modelled from the spec: a Position is a 0-indexed (row, column) pair.
\<close>

type_synonym position = "nat \<times> nat"

text \<open>
  Modelled from the spec: an Entity has a name, a profession, a position and a label
  state; a Board is the ordered collection of entities with the grid's dimensions.
\<close>

record entity =
  entity_name :: string
  entity_profession :: string
  position :: position
  state :: label_state

record board =
  entities :: "entity list"
  rows :: nat
  cols :: nat

text \<open>
  Modelled from the spec: the Value union of section 3. A PositionSet has set semantics;
  it is kept as the list of its members in row-major order without repetition (see
  \<open>mk_set\<close>), so that two PositionSets are equal exactly when they have the same members
  and every traversal has a fixed order.
\<close>

datatype val =
    Position position
  | PositionSet "position list"
  | Number int
  | Boolean bool
  | Label label
  | Profession string

text \<open>
  Modelled from the spec: the evaluator's error kinds (sections 4.3 and 7). A
  ReferenceError tells what was referred to: an unknown name, an empty position, a position
  whose entity is Unresolved, or the implicit position outside any Filter.
\<close>

datatype reference = UnknownName string | EmptyPosition position | UnresolvedPosition position | NoCandidate

datatype eval_error = ReferenceError reference | TypeError' | ArityError

text \<open>
  Modelled from the spec: the closed set of node kinds of section 4.1, followed by the
  convenience forms of the API reference (\<open>above\<close>, \<open>below\<close>, \<open>left_of\<close>, \<open>right_of\<close>,
  \<open>neighbors_of\<close>, \<open>criminals\<close>, \<open>innocents\<close>, \<open>count_criminals\<close>, \<open>count_innocents\<close>).
  HasLabel, HasProfession, IsEdge and IsUnknown take an optional position operand: without
  it they apply to the position bound by the enclosing Filter. Above, Union, Not and Sum
  carry a prime, their plain names being constants of the logic.
\<close>

datatype expr =
    Literal val
  | CharacterRef string
  | AllCharacters
  | EdgePositions
  | Above' expr
  | Below expr
  | LeftOf expr
  | RightOf expr
  | Neighbors expr
  | Filter expr expr
  | Intersection "expr list"
  | Union' "expr list"
  | And "expr list"
  | Or "expr list"
  | Not' expr
  | Count expr
  | Sum' expr
  | HasLabel "expr option" label
  | HasProfession "expr option" string
  | IsEdge "expr option"
  | IsUnknown "expr option"
  | Equal expr expr
  | Greater expr expr
  | GreaterEqual expr expr
  | Less expr expr
  | LessEqual expr expr
  | IsOdd expr
  | IsEven expr
  | AreConnected expr
  | above' string
  | below string
  | left_of string
  | right_of string
  | neighbors_of string
  | criminals expr
  | innocents expr
  | count_criminals expr
  | count_innocents expr


text \<open>
  Modelled from the spec: the positions of the R x C grid, in row-major order.
\<close>

definition grid :: "board \<Rightarrow> position list" where
  "grid b = List.product [0..<rows b] [0..<cols b]"

text \<open>
  Modelled from the spec: the canonical list of a set of positions (row-major, no
  repetition), what it means for a list to be canonical, and the canonical form of a
  literal value.
\<close>

definition mk_set :: "position list \<Rightarrow> position list" where
  "mk_set ps = sorted_list_of_set (set ps)"

definition canonical_set :: "position list \<Rightarrow> bool" where
  "canonical_set ps = (sorted ps \<and> distinct ps)"

fun normal :: "val \<Rightarrow> val" where
  "normal (PositionSet ps) = PositionSet (mk_set ps)"
| "normal v = v"

text \<open>
  Modelled from the spec: IsEdge holds when the row is 0 or R - 1, or the column is 0 or
  C - 1.
\<close>

definition is_edge :: "board \<Rightarrow> position \<Rightarrow> bool" where
  "is_edge b p = (fst p = 0 \<or> Suc (fst p) = rows b \<or> snd p = 0 \<or> Suc (snd p) = cols b)"

text \<open>
  Modelled from the spec: the Chebyshev distance of two positions.
\<close>

definition distance :: "nat \<Rightarrow> nat \<Rightarrow> nat" where
  "distance m n = (if m \<le> n then n - m else m - n)"

definition chebyshev :: "position \<Rightarrow> position \<Rightarrow> nat" where
  "chebyshev p q = max (distance (fst p) (fst q)) (distance (snd p) (snd q))"

text \<open>
  Modelled from the spec: the directional generators of one position. Above and Below keep
  the column and take the strictly smaller or larger rows; LeftOf and RightOf keep the row;
  Neighbors are the positions at Chebyshev distance exactly 1. All are clipped to the grid.
\<close>

definition above_of :: "board \<Rightarrow> position \<Rightarrow> position list" where
  "above_of b p = filter (\<lambda>q. snd q = snd p \<and> fst q < fst p) (grid b)"

definition below_of :: "board \<Rightarrow> position \<Rightarrow> position list" where
  "below_of b p = filter (\<lambda>q. snd q = snd p \<and> fst p < fst q) (grid b)"

definition left_of_position :: "board \<Rightarrow> position \<Rightarrow> position list" where
  "left_of_position b p = filter (\<lambda>q. fst q = fst p \<and> snd q < snd p) (grid b)"

definition right_of_position :: "board \<Rightarrow> position \<Rightarrow> position list" where
  "right_of_position b p = filter (\<lambda>q. fst q = fst p \<and> snd p < snd q) (grid b)"

definition neighbors_of_position :: "board \<Rightarrow> position \<Rightarrow> position list" where
  "neighbors_of_position b p = filter (\<lambda>q. chebyshev p q = 1) (grid b)"

text \<open>
  Modelled from the spec: a directional node takes a Position or a PositionSet and yields
  the union over all source positions.
\<close>

fun sources :: "val \<Rightarrow> eval_error + position list" where
  "sources (Position p) = Inr [p]"
| "sources (PositionSet ps) = Inr ps"
| "sources v = Inl TypeError'"

definition directional :: "(position \<Rightarrow> position list) \<Rightarrow> val \<Rightarrow> eval_error + val" where
  "directional f v = and_then (sources v) (\<lambda>ps. Inr (PositionSet (mk_set (concat (map f ps)))))"

text \<open>
  Modelled from the spec: the entity that occupies a position, and the entity of a name.
\<close>

definition entity_at :: "board \<Rightarrow> position \<Rightarrow> entity option" where
  "entity_at b p = find (\<lambda>e. position e = p) (entities b)"

definition entity_named :: "board \<Rightarrow> string \<Rightarrow> entity option" where
  "entity_named b n = find (\<lambda>e. entity_name e = n) (entities b)"

text \<open>
  Modelled from the spec: CharacterRef yields the position of the named entity and fails
  with a ReferenceError when the name is absent.
\<close>

definition character_ref :: "board \<Rightarrow> string \<Rightarrow> eval_error + val" where
  "character_ref b n =
     (case entity_named b n of
        None \<Rightarrow> Inl (ReferenceError (UnknownName n))
      | Some e \<Rightarrow> Inr (Position (position e)))"

text \<open>
  Modelled from the spec: HasLabel compares the label of the entity at the position; an
  empty position and an Unresolved entity are ReferenceErrors. IsUnknown hits the same two
  errors (section 4.3), so on a resolved entity it is false.
\<close>

definition has_label :: "board \<Rightarrow> label \<Rightarrow> position \<Rightarrow> eval_error + val" where
  "has_label b l p =
     (case entity_at b p of
        None \<Rightarrow> Inl (ReferenceError (EmptyPosition p))
      | Some e \<Rightarrow>
          (case state e of
             Unresolved \<Rightarrow> Inl (ReferenceError (UnresolvedPosition p))
           | Known l' \<Rightarrow> Inr (Boolean (l' = l))))"

definition has_profession :: "board \<Rightarrow> string \<Rightarrow> position \<Rightarrow> eval_error + val" where
  "has_profession b prof p =
     (case entity_at b p of
        None \<Rightarrow> Inl (ReferenceError (EmptyPosition p))
      | Some e \<Rightarrow> Inr (Boolean (entity_profession e = prof)))"

definition is_unknown :: "board \<Rightarrow> position \<Rightarrow> eval_error + val" where
  "is_unknown b p =
     (case entity_at b p of
        None \<Rightarrow> Inl (ReferenceError (EmptyPosition p))
      | Some e \<Rightarrow>
          (case state e of
             Unresolved \<Rightarrow> Inl (ReferenceError (UnresolvedPosition p))
           | Known l' \<Rightarrow> Inr (Boolean False)))"

text \<open>
  Modelled from the spec: the implicit position a predicate without operand applies to is
  the candidate bound by the enclosing Filter; outside a Filter there is none.
\<close>

definition candidate :: "position option \<Rightarrow> eval_error + position" where
  "candidate c = (case c of None \<Rightarrow> Inl (ReferenceError NoCandidate) | Some p \<Rightarrow> Inr p)"

text \<open>
  Modelled from the spec: the type contracts of the nodes; an operand of another type is a
  TypeError.
\<close>

fun as_position :: "val \<Rightarrow> eval_error + position" where
  "as_position (Position p) = Inr p"
| "as_position v = Inl TypeError'"

fun as_set :: "val \<Rightarrow> eval_error + position list" where
  "as_set (PositionSet ps) = Inr ps"
| "as_set v = Inl TypeError'"

fun as_boolean :: "val \<Rightarrow> eval_error + bool" where
  "as_boolean (Boolean t) = Inr t"
| "as_boolean v = Inl TypeError'"

fun as_number :: "val \<Rightarrow> eval_error + int" where
  "as_number (Number i) = Inr i"
| "as_number v = Inl TypeError'"

text \<open>
  Modelled from the spec: the contract checked on every operand of a variadic node, from
  left to right.
\<close>

fun each :: "('a \<Rightarrow> eval_error + 'b) \<Rightarrow> 'a list \<Rightarrow> eval_error + 'b list" where
  "each f [] = Inr []"
| "each f (x # xs) = and_then (f x) (\<lambda>y. and_then (each f xs) (\<lambda>ys. Inr (y # ys)))"

text \<open>
  Modelled from the spec: Intersection, Union, And and Or on the values of their
  operands; with zero operands they fail with an ArityError.
\<close>

definition intersect_all :: "val list \<Rightarrow> eval_error + val" where
  "intersect_all vs =
     and_then (each as_set vs) (\<lambda>sets.
       case sets of
         [] \<Rightarrow> Inl ArityError
       | s # rest \<Rightarrow> Inr (PositionSet (filter (\<lambda>p. \<forall>t \<in> set rest. p \<in> set t) s)))"

definition union_all :: "val list \<Rightarrow> eval_error + val" where
  "union_all vs =
     and_then (each as_set vs) (\<lambda>sets.
       if sets = [] then Inl ArityError else Inr (PositionSet (mk_set (concat sets))))"

definition conjunction :: "val list \<Rightarrow> eval_error + val" where
  "conjunction vs =
     and_then (each as_boolean vs) (\<lambda>ts.
       if ts = [] then Inl ArityError else Inr (Boolean (\<forall>t \<in> set ts. t)))"

definition disjunction :: "val list \<Rightarrow> eval_error + val" where
  "disjunction vs =
     and_then (each as_boolean vs) (\<lambda>ts.
       if ts = [] then Inl ArityError else Inr (Boolean (\<exists>t \<in> set ts. t)))"

text \<open>
  Modelled from the spec: Not, Count and Sum. The only collection among the values is the
  PositionSet, whose members are not numbers: the sum of the empty collection is 0, and a
  collection with a member is a TypeError.
\<close>

definition negation :: "val \<Rightarrow> eval_error + val" where
  "negation v = and_then (as_boolean v) (\<lambda>t. Inr (Boolean (\<not> t)))"

definition count_members :: "val \<Rightarrow> eval_error + val" where
  "count_members v = and_then (as_set v) (\<lambda>ps. Inr (Number (int (length ps))))"

definition sum_of :: "val \<Rightarrow> eval_error + val" where
  "sum_of v = and_then (as_set v) (\<lambda>ps. if ps = [] then Inr (Number 0) else Inl TypeError')"

text \<open>
  Modelled from the spec: the type tag of a value. Equal accepts two values of the same
  type; the ordering comparisons and IsOdd, IsEven require Numbers.
\<close>

datatype val_type = TPosition | TPositionSet | TNumber | TBoolean | TLabel | TProfession

fun type_of :: "val \<Rightarrow> val_type" where
  "type_of (Position p) = TPosition"
| "type_of (PositionSet ps) = TPositionSet"
| "type_of (Number i) = TNumber"
| "type_of (Boolean t) = TBoolean"
| "type_of (Label l) = TLabel"
| "type_of (Profession s) = TProfession"

definition equal_values :: "val \<Rightarrow> val \<Rightarrow> eval_error + val" where
  "equal_values v w = (if type_of v = type_of w then Inr (Boolean (v = w)) else Inl TypeError')"

definition ordering :: "(int \<Rightarrow> int \<Rightarrow> bool) \<Rightarrow> val \<Rightarrow> val \<Rightarrow> eval_error + val" where
  "ordering r v w =
     and_then (as_number v) (\<lambda>i. and_then (as_number w) (\<lambda>j. Inr (Boolean (r i j))))"

definition parity :: "(int \<Rightarrow> bool) \<Rightarrow> val \<Rightarrow> eval_error + val" where
  "parity r v = and_then (as_number v) (\<lambda>i. Inr (Boolean (r i)))"

text \<open>
  Modelled from the spec: AreConnected holds when every two members of the set are joined
  by a path inside the set whose steps have Chebyshev distance 1; the empty set and
  singletons are connected.
\<close>

definition king_connected :: "position list \<Rightarrow> bool" where
  "king_connected ps =
     (\<forall>p \<in> set ps. \<forall>q \<in> set ps.
        p = q \<or> (p, q) \<in> trancl (set (filter (\<lambda>(x, y). chebyshev x y = 1) (List.product ps ps))))"

definition are_connected :: "val \<Rightarrow> eval_error + val" where
  "are_connected v = and_then (as_set v) (\<lambda>ps. Inr (Boolean (king_connected ps)))"

text \<open>
  Modelled from the spec: the evaluator of section 4.3, a recursive reduction of an
  expression against a board and the candidate position bound by the enclosing Filter.
  Operands are evaluated left to right and the first error is the result. \<open>eval_list\<close>
  evaluates the operands of a variadic node, \<open>eval_members\<close> the predicate of a Filter once
  per member of the source set, in row-major order, with that member bound. The evaluator
  takes canonical trees: a convenience form that was not expanded is a TypeError.
\<close>

fun eval :: "board \<Rightarrow> position option \<Rightarrow> expr \<Rightarrow> eval_error + val"
  and eval_list :: "board \<Rightarrow> position option \<Rightarrow> expr list \<Rightarrow> eval_error + val list"
  and eval_members :: "board \<Rightarrow> expr \<Rightarrow> position list \<Rightarrow> eval_error + position list"
where
  "eval b c (Literal v) = Inr (normal v)"
| "eval b c (CharacterRef n) = character_ref b n"
| "eval b c AllCharacters = Inr (PositionSet (mk_set (map position (entities b))))"
| "eval b c EdgePositions = Inr (PositionSet (filter (is_edge b) (grid b)))"
| "eval b c (Above' e) = and_then (eval b c e) (directional (above_of b))"
| "eval b c (Below e) = and_then (eval b c e) (directional (below_of b))"
| "eval b c (LeftOf e) = and_then (eval b c e) (directional (left_of_position b))"
| "eval b c (RightOf e) = and_then (eval b c e) (directional (right_of_position b))"
| "eval b c (Neighbors e) = and_then (eval b c e) (directional (neighbors_of_position b))"
| "eval b c (Filter src pred) =
     (case eval b c src of
        Inl err \<Rightarrow> Inl err
      | Inr v \<Rightarrow>
          (case as_set v of
             Inl err \<Rightarrow> Inl err
           | Inr ps \<Rightarrow>
               (case eval_members b pred ps of
                  Inl err \<Rightarrow> Inl err
                | Inr qs \<Rightarrow> Inr (PositionSet qs))))"
| "eval b c (Intersection es) =
     (if es = [] then Inl ArityError else and_then (eval_list b c es) intersect_all)"
| "eval b c (Union' es) =
     (if es = [] then Inl ArityError else and_then (eval_list b c es) union_all)"
| "eval b c (And es) =
     (if es = [] then Inl ArityError else and_then (eval_list b c es) conjunction)"
| "eval b c (Or es) =
     (if es = [] then Inl ArityError else and_then (eval_list b c es) disjunction)"
| "eval b c (Not' e) = and_then (eval b c e) negation"
| "eval b c (Count e) = and_then (eval b c e) count_members"
| "eval b c (Sum' e) = and_then (eval b c e) sum_of"
| "eval b c (HasLabel None l) = and_then (candidate c) (has_label b l)"
| "eval b c (HasLabel (Some e) l) =
     and_then (and_then (eval b c e) as_position) (has_label b l)"
| "eval b c (HasProfession None prof) = and_then (candidate c) (has_profession b prof)"
| "eval b c (HasProfession (Some e) prof) =
     and_then (and_then (eval b c e) as_position) (has_profession b prof)"
| "eval b c (IsEdge None) = and_then (candidate c) (\<lambda>p. Inr (Boolean (is_edge b p)))"
| "eval b c (IsEdge (Some e)) =
     and_then (and_then (eval b c e) as_position) (\<lambda>p. Inr (Boolean (is_edge b p)))"
| "eval b c (IsUnknown None) = and_then (candidate c) (is_unknown b)"
| "eval b c (IsUnknown (Some e)) =
     and_then (and_then (eval b c e) as_position) (is_unknown b)"
| "eval b c (Equal e f) =
     (case eval b c e of Inl err \<Rightarrow> Inl err | Inr v \<Rightarrow> and_then (eval b c f) (equal_values v))"
| "eval b c (Greater e f) =
     (case eval b c e of Inl err \<Rightarrow> Inl err | Inr v \<Rightarrow> and_then (eval b c f) (ordering (\<lambda>i j. j < i) v))"
| "eval b c (GreaterEqual e f) =
     (case eval b c e of Inl err \<Rightarrow> Inl err | Inr v \<Rightarrow> and_then (eval b c f) (ordering (\<lambda>i j. j \<le> i) v))"
| "eval b c (Less e f) =
     (case eval b c e of Inl err \<Rightarrow> Inl err | Inr v \<Rightarrow> and_then (eval b c f) (ordering (\<lambda>i j. i < j) v))"
| "eval b c (LessEqual e f) =
     (case eval b c e of Inl err \<Rightarrow> Inl err | Inr v \<Rightarrow> and_then (eval b c f) (ordering (\<lambda>i j. i \<le> j) v))"
| "eval b c (IsOdd e) = and_then (eval b c e) (parity odd)"
| "eval b c (IsEven e) = and_then (eval b c e) (parity even)"
| "eval b c (AreConnected e) = and_then (eval b c e) are_connected"
| "eval b c (above' n) = Inl TypeError'"
| "eval b c (below n) = Inl TypeError'"
| "eval b c (left_of n) = Inl TypeError'"
| "eval b c (right_of n) = Inl TypeError'"
| "eval b c (neighbors_of n) = Inl TypeError'"
| "eval b c (criminals e) = Inl TypeError'"
| "eval b c (innocents e) = Inl TypeError'"
| "eval b c (count_criminals e) = Inl TypeError'"
| "eval b c (count_innocents e) = Inl TypeError'"
| "eval_list b c [] = Inr []"
| "eval_list b c (e # es) =
     (case eval b c e of
        Inl err \<Rightarrow> Inl err
      | Inr v \<Rightarrow> (case eval_list b c es of Inl err \<Rightarrow> Inl err | Inr vs \<Rightarrow> Inr (v # vs)))"
| "eval_members b pred [] = Inr []"
| "eval_members b pred (p # ps) =
     (case eval b (Some p) pred of
        Inl err \<Rightarrow> Inl err
      | Inr v \<Rightarrow>
          (case as_boolean v of
             Inl err \<Rightarrow> Inl err
           | Inr t \<Rightarrow>
               (case eval_members b pred ps of
                  Inl err \<Rightarrow> Inl err
                | Inr qs \<Rightarrow> Inr (if t then p # qs else qs))))"


text \<open>
  Modelled from the spec: the sugar expander of section 4.2, a bottom-up structural
  substitution. Each convenience form is rewritten as the API reference says it compiles;
  every other node is rebuilt from its expanded operands.
\<close>

fun expand :: "expr \<Rightarrow> expr" where
  "expand (Literal v) = Literal v"
| "expand (CharacterRef n) = CharacterRef n"
| "expand AllCharacters = AllCharacters"
| "expand EdgePositions = EdgePositions"
| "expand (Above' e) = Above' (expand e)"
| "expand (Below e) = Below (expand e)"
| "expand (LeftOf e) = LeftOf (expand e)"
| "expand (RightOf e) = RightOf (expand e)"
| "expand (Neighbors e) = Neighbors (expand e)"
| "expand (Filter src pred) = Filter (expand src) (expand pred)"
| "expand (Intersection es) = Intersection (map expand es)"
| "expand (Union' es) = Union' (map expand es)"
| "expand (And es) = And (map expand es)"
| "expand (Or es) = Or (map expand es)"
| "expand (Not' e) = Not' (expand e)"
| "expand (Count e) = Count (expand e)"
| "expand (Sum' e) = Sum' (expand e)"
| "expand (HasLabel None l) = HasLabel None l"
| "expand (HasLabel (Some e) l) = HasLabel (Some (expand e)) l"
| "expand (HasProfession None prof) = HasProfession None prof"
| "expand (HasProfession (Some e) prof) = HasProfession (Some (expand e)) prof"
| "expand (IsEdge None) = IsEdge None"
| "expand (IsEdge (Some e)) = IsEdge (Some (expand e))"
| "expand (IsUnknown None) = IsUnknown None"
| "expand (IsUnknown (Some e)) = IsUnknown (Some (expand e))"
| "expand (Equal e f) = Equal (expand e) (expand f)"
| "expand (Greater e f) = Greater (expand e) (expand f)"
| "expand (GreaterEqual e f) = GreaterEqual (expand e) (expand f)"
| "expand (Less e f) = Less (expand e) (expand f)"
| "expand (LessEqual e f) = LessEqual (expand e) (expand f)"
| "expand (IsOdd e) = IsOdd (expand e)"
| "expand (IsEven e) = IsEven (expand e)"
| "expand (AreConnected e) = AreConnected (expand e)"
| "expand (above' n) = Above' (CharacterRef n)"
| "expand (below n) = Below (CharacterRef n)"
| "expand (left_of n) = LeftOf (CharacterRef n)"
| "expand (right_of n) = RightOf (CharacterRef n)"
| "expand (neighbors_of n) = Neighbors (CharacterRef n)"
| "expand (criminals s) = Filter (expand s) (HasLabel None Criminal)"
| "expand (innocents s) = Filter (expand s) (HasLabel None Innocent)"
| "expand (count_criminals s) = Count (Filter (expand s) (HasLabel None Criminal))"
| "expand (count_innocents s) = Count (Filter (expand s) (HasLabel None Innocent))"

text \<open>
  Modelled from the spec: a node is a convenience form, the operands of a node (its
  arity is their number), and a tree is canonical when it holds no convenience form.
\<close>

fun is_sugar :: "expr \<Rightarrow> bool" where
  "is_sugar (above' n) = True"
| "is_sugar (below n) = True"
| "is_sugar (left_of n) = True"
| "is_sugar (right_of n) = True"
| "is_sugar (neighbors_of n) = True"
| "is_sugar (criminals s) = True"
| "is_sugar (innocents s) = True"
| "is_sugar (count_criminals s) = True"
| "is_sugar (count_innocents s) = True"
| "is_sugar e = False"

fun operands :: "expr \<Rightarrow> expr list" where
  "operands (Above' e) = [e]"
| "operands (Below e) = [e]"
| "operands (LeftOf e) = [e]"
| "operands (RightOf e) = [e]"
| "operands (Neighbors e) = [e]"
| "operands (Filter src pred) = [src, pred]"
| "operands (Intersection es) = es"
| "operands (Union' es) = es"
| "operands (And es) = es"
| "operands (Or es) = es"
| "operands (Not' e) = [e]"
| "operands (Count e) = [e]"
| "operands (Sum' e) = [e]"
| "operands (HasLabel pos l) = (case pos of None \<Rightarrow> [] | Some e \<Rightarrow> [e])"
| "operands (HasProfession pos prof) = (case pos of None \<Rightarrow> [] | Some e \<Rightarrow> [e])"
| "operands (IsEdge pos) = (case pos of None \<Rightarrow> [] | Some e \<Rightarrow> [e])"
| "operands (IsUnknown pos) = (case pos of None \<Rightarrow> [] | Some e \<Rightarrow> [e])"
| "operands (Equal e f) = [e, f]"
| "operands (Greater e f) = [e, f]"
| "operands (GreaterEqual e f) = [e, f]"
| "operands (Less e f) = [e, f]"
| "operands (LessEqual e f) = [e, f]"
| "operands (IsOdd e) = [e]"
| "operands (IsEven e) = [e]"
| "operands (AreConnected e) = [e]"
| "operands (criminals s) = [s]"
| "operands (innocents s) = [s]"
| "operands (count_criminals s) = [s]"
| "operands (count_innocents s) = [s]"
| "operands e = []"

fun canonical :: "expr \<Rightarrow> bool" where
  "canonical (Above' e) = canonical e"
| "canonical (Below e) = canonical e"
| "canonical (LeftOf e) = canonical e"
| "canonical (RightOf e) = canonical e"
| "canonical (Neighbors e) = canonical e"
| "canonical (Filter src pred) = (canonical src \<and> canonical pred)"
| "canonical (Intersection es) = (\<forall>e \<in> set es. canonical e)"
| "canonical (Union' es) = (\<forall>e \<in> set es. canonical e)"
| "canonical (And es) = (\<forall>e \<in> set es. canonical e)"
| "canonical (Or es) = (\<forall>e \<in> set es. canonical e)"
| "canonical (Not' e) = canonical e"
| "canonical (Count e) = canonical e"
| "canonical (Sum' e) = canonical e"
| "canonical (HasLabel (Some e) l) = canonical e"
| "canonical (HasProfession (Some e) prof) = canonical e"
| "canonical (IsEdge (Some e)) = canonical e"
| "canonical (IsUnknown (Some e)) = canonical e"
| "canonical (Equal e f) = (canonical e \<and> canonical f)"
| "canonical (Greater e f) = (canonical e \<and> canonical f)"
| "canonical (GreaterEqual e f) = (canonical e \<and> canonical f)"
| "canonical (Less e f) = (canonical e \<and> canonical f)"
| "canonical (LessEqual e f) = (canonical e \<and> canonical f)"
| "canonical (IsOdd e) = canonical e"
| "canonical (IsEven e) = canonical e"
| "canonical (AreConnected e) = canonical e"
| "canonical (above' n) = False"
| "canonical (below n) = False"
| "canonical (left_of n) = False"
| "canonical (right_of n) = False"
| "canonical (neighbors_of n) = False"
| "canonical (criminals s) = False"
| "canonical (innocents s) = False"
| "canonical (count_criminals s) = False"
| "canonical (count_innocents s) = False"
| "canonical e = True"

text \<open>
  Modelled from the spec: the result type the table of section 4.1 gives each node, a
  convenience form having the type of the node it compiles to.
\<close>

fun result_type :: "expr \<Rightarrow> val_type" where
  "result_type (Literal v) = type_of v"
| "result_type (CharacterRef n) = TPosition"
| "result_type AllCharacters = TPositionSet"
| "result_type EdgePositions = TPositionSet"
| "result_type (Above' e) = TPositionSet"
| "result_type (Below e) = TPositionSet"
| "result_type (LeftOf e) = TPositionSet"
| "result_type (RightOf e) = TPositionSet"
| "result_type (Neighbors e) = TPositionSet"
| "result_type (Filter src pred) = TPositionSet"
| "result_type (Intersection es) = TPositionSet"
| "result_type (Union' es) = TPositionSet"
| "result_type (Count e) = TNumber"
| "result_type (Sum' e) = TNumber"
| "result_type (above' n) = TPositionSet"
| "result_type (below n) = TPositionSet"
| "result_type (left_of n) = TPositionSet"
| "result_type (right_of n) = TPositionSet"
| "result_type (neighbors_of n) = TPositionSet"
| "result_type (criminals s) = TPositionSet"
| "result_type (innocents s) = TPositionSet"
| "result_type (count_criminals s) = TNumber"
| "result_type (count_innocents s) = TNumber"
| "result_type e = TBoolean"


text \<open>
  Modelled from the spec: \<open>evaluate(expr, board)\<close>, with no candidate bound.
\<close>

definition evaluate :: "expr \<Rightarrow> board \<Rightarrow> eval_error + val" where
  "evaluate e b = eval b None e"

text \<open>
  Modelled from the spec: the recommendation of section 6, its outcome kind together with
  the entity name and the forced label a certain move carries. The optional justification
  is left out. No function of this model yields TIMED_OUT: cancellation is left out too.
\<close>

datatype recommendation = CERTAIN_MOVE string label | NO_CERTAIN_MOVE | UNSAT | TIMED_OUT

text \<open>
  Modelled from the spec: the invariant of a Board. Entity names are unique, each position
  holds at most one entity, the dimensions are positive and bound the positions.
\<close>

definition wf_board :: "board \<Rightarrow> bool" where
  "wf_board b =
     (distinct (map entity_name (entities b)) \<and>
      distinct (map position (entities b)) \<and>
      0 < rows b \<and> 0 < cols b \<and>
      (\<forall>e \<in> set (entities b). fst (position e) < rows b \<and> snd (position e) < cols b))"

text \<open>
  Modelled from the spec: the Unresolved entities U in row-major position order, the fixed
  order of the solver.
\<close>

definition unresolved :: "board \<Rightarrow> entity list" where
  "unresolved b = sort_key position (filter (\<lambda>e. state e = Unresolved) (entities b))"

text \<open>
  Modelled from the spec: an assignment gives labels to names, and the board under an
  assignment gives every Unresolved entity the assignment names its label and changes
  nothing else. Under a total assignment this is the trial board of section 4.4; under the
  partial assignments of backtracking the entities not yet assigned stay Unresolved.
\<close>

type_synonym assignment = "string \<rightharpoonup> label"

definition assign :: "assignment \<Rightarrow> entity \<Rightarrow> entity" where
  "assign m e =
     (case state e of
        Known l \<Rightarrow> e
      | Unresolved \<Rightarrow> (case m (entity_name e) of None \<Rightarrow> e | Some l \<Rightarrow> e\<lparr>state := Known l\<rparr>))"

definition trial_board :: "board \<Rightarrow> assignment \<Rightarrow> board" where
  "trial_board b m = b\<lparr>entities := map (assign m) (entities b)\<rparr>"

text \<open>
  Modelled from the spec: trial generation by full enumeration, the 2^n total assignments
  of labels to the names of U.
\<close>

fun assignments :: "string list \<Rightarrow> (string \<times> label) list list" where
  "assignments [] = [[]]"
| "assignments (n # ns) =
     concat (map (\<lambda>l. map (\<lambda>a. (n, l) # a) (assignments ns)) [Innocent, Criminal])"

text \<open>
  Modelled from the spec: trial evaluation. An assignment is a consistent model when every
  clue evaluates to true on its trial board and none raises an error (section 4.4). Section
  7 would have such an error surfaced as an authoring error; the outcome kinds of section
  6 have no place for one, and this model follows section 4.4.
\<close>

definition consistent :: "board \<Rightarrow> expr list \<Rightarrow> (string \<times> label) list \<Rightarrow> bool" where
  "consistent b clues a =
     (\<forall>c \<in> set clues. evaluate c (trial_board b (map_of a)) = Inr (Boolean True))"

definition enumerate_models :: "board \<Rightarrow> expr list \<Rightarrow> (string \<times> label) list list" where
  "enumerate_models b clues =
     filter (consistent b clues) (assignments (map entity_name (unresolved b)))"

text \<open>
  Modelled from the spec: the entities a clue refers to. A label is read by HasLabel and
  IsUnknown only: on an explicit \<open>CharacterRef\<close> the referenced entity is the named one; on
  the implicit position or a computed one it can be any entity of the board.
\<close>

fun named :: "expr \<Rightarrow> string option" where
  "named (CharacterRef n) = Some n"
| "named e = None"

fun referenced_entities :: "board \<Rightarrow> expr \<Rightarrow> string list" where
  "referenced_entities b (HasLabel None l) = map entity_name (entities b)"
| "referenced_entities b (HasLabel (Some e) l) =
     (case named e of Some n \<Rightarrow> [n] | None \<Rightarrow> map entity_name (entities b))"
| "referenced_entities b (IsUnknown None) = map entity_name (entities b)"
| "referenced_entities b (IsUnknown (Some e)) =
     (case named e of Some n \<Rightarrow> [n] | None \<Rightarrow> map entity_name (entities b))"
| "referenced_entities b (HasProfession (Some e) prof) = referenced_entities b e"
| "referenced_entities b (IsEdge (Some e)) = referenced_entities b e"
| "referenced_entities b (Above' e) = referenced_entities b e"
| "referenced_entities b (Below e) = referenced_entities b e"
| "referenced_entities b (LeftOf e) = referenced_entities b e"
| "referenced_entities b (RightOf e) = referenced_entities b e"
| "referenced_entities b (Neighbors e) = referenced_entities b e"
| "referenced_entities b (Filter src pred) = referenced_entities b src @ referenced_entities b pred"
| "referenced_entities b (Intersection es) = concat (map (referenced_entities b) es)"
| "referenced_entities b (Union' es) = concat (map (referenced_entities b) es)"
| "referenced_entities b (And es) = concat (map (referenced_entities b) es)"
| "referenced_entities b (Or es) = concat (map (referenced_entities b) es)"
| "referenced_entities b (Not' e) = referenced_entities b e"
| "referenced_entities b (Count e) = referenced_entities b e"
| "referenced_entities b (Sum' e) = referenced_entities b e"
| "referenced_entities b (Equal e f) = referenced_entities b e @ referenced_entities b f"
| "referenced_entities b (Greater e f) = referenced_entities b e @ referenced_entities b f"
| "referenced_entities b (GreaterEqual e f) = referenced_entities b e @ referenced_entities b f"
| "referenced_entities b (Less e f) = referenced_entities b e @ referenced_entities b f"
| "referenced_entities b (LessEqual e f) = referenced_entities b e @ referenced_entities b f"
| "referenced_entities b (IsOdd e) = referenced_entities b e"
| "referenced_entities b (IsEven e) = referenced_entities b e"
| "referenced_entities b (AreConnected e) = referenced_entities b e"
| "referenced_entities b e = []"

text \<open>
  Modelled from the spec: a clue is fully bound on a partly assigned board when every
  entity it refers to has a label there; a branch is pruned when such a clue evaluates to
  false.
\<close>

definition bound :: "board \<Rightarrow> string \<Rightarrow> bool" where
  "bound b n = (\<forall>e \<in> set (entities b). entity_name e = n \<longrightarrow> state e \<noteq> Unresolved)"

definition fully_bound :: "board \<Rightarrow> expr \<Rightarrow> bool" where
  "fully_bound b c = (\<forall>n \<in> set (referenced_entities b c). bound b n)"

definition pruned :: "board \<Rightarrow> expr list \<Rightarrow> (string \<times> label) list \<Rightarrow> bool" where
  "pruned b clues a =
     (\<exists>c \<in> set clues.
        fully_bound (trial_board b (map_of a)) c \<and>
        evaluate c (trial_board b (map_of a)) = Inr (Boolean False))"

text \<open>
  Modelled from the spec: incremental backtracking. The names are assigned one at a time
  in the fixed order, each label in turn; a pruned branch yields no model, and a complete
  assignment is checked as in full enumeration.
\<close>

fun backtrack ::
  "board \<Rightarrow> expr list \<Rightarrow> (string \<times> label) list \<Rightarrow> string list \<Rightarrow> (string \<times> label) list list" where
  "backtrack b clues partial [] = (if consistent b clues partial then [partial] else [])"
| "backtrack b clues partial (n # ns) =
     concat (map (\<lambda>l. if pruned b clues (partial @ [(n, l)]) then []
                       else backtrack b clues (partial @ [(n, l)]) ns)
               [Innocent, Criminal])"

definition backtracking_models :: "board \<Rightarrow> expr list \<Rightarrow> (string \<times> label) list list" where
  "backtracking_models b clues = backtrack b clues [] (map entity_name (unresolved b))"

text \<open>
  Modelled from the spec: the label a name has in every consistent model, if there is
  one; the first entity of U, in row-major order, that has such a label.
\<close>

definition forced_label :: "(string \<times> label) list list \<Rightarrow> string \<Rightarrow> label option" where
  "forced_label ms n =
     (case ms of
        [] \<Rightarrow> None
      | m # rest \<Rightarrow>
          (case map_of m n of
             None \<Rightarrow> None
           | Some l \<Rightarrow> if \<forall>m' \<in> set rest. map_of m' n = Some l then Some l else None))"

fun first_forced :: "(string \<times> label) list list \<Rightarrow> entity list \<Rightarrow> (string \<times> label) option" where
  "first_forced ms [] = None"
| "first_forced ms (e # es) =
     (case forced_label ms (entity_name e) of
        Some l \<Rightarrow> Some (entity_name e, l)
      | None \<Rightarrow> first_forced ms es)"

text \<open>
  Modelled from the spec: the contradiction check and the certainty check.
\<close>

definition certainty :: "(string \<times> label) list list \<Rightarrow> entity list \<Rightarrow> recommendation" where
  "certainty ms us =
     (if ms = [] then UNSAT
      else (case first_forced ms us of
              Some (n, l) \<Rightarrow> CERTAIN_MOVE n l
            | None \<Rightarrow> NO_CERTAIN_MOVE))"

text \<open>
  Modelled from the spec: the solver. With no unresolved entity the answer is
  NO_CERTAIN_MOVE at once; up to the threshold of 24 unresolved entities the models are
  enumerated, beyond it they are found by backtracking.
\<close>

definition threshold :: nat where
  "threshold = 24"

definition solve_by_enumeration :: "board \<Rightarrow> expr list \<Rightarrow> recommendation" where
  "solve_by_enumeration b clues =
     (if unresolved b = [] then NO_CERTAIN_MOVE
      else certainty (enumerate_models b clues) (unresolved b))"

definition solve_by_backtracking :: "board \<Rightarrow> expr list \<Rightarrow> recommendation" where
  "solve_by_backtracking b clues =
     (if unresolved b = [] then NO_CERTAIN_MOVE
      else certainty (backtracking_models b clues) (unresolved b))"

definition solve :: "board \<Rightarrow> expr list \<Rightarrow> recommendation" where
  "solve b clues =
     (if length (unresolved b) \<le> threshold then solve_by_enumeration b clues
      else solve_by_backtracking b clues)"

text \<open>
  Modelled from the spec: the notions of section 4.4. U is the set of Unresolved
  entities; a consistent model is a total function from the names of U to labels under
  which every clue evaluates to true; an entity is forced to a label when every consistent
  model assigns it that label; row-major order compares rows first, then columns.
\<close>

definition unresolved_entities :: "board \<Rightarrow> entity set" where
  "unresolved_entities b = {e \<in> set (entities b). state e = Unresolved}"

definition is_model :: "board \<Rightarrow> expr list \<Rightarrow> assignment \<Rightarrow> bool" where
  "is_model b clues m =
     (dom m = entity_name ` unresolved_entities b \<and>
      (\<forall>c \<in> set clues. evaluate c (trial_board b m) = Inr (Boolean True)))"

definition forced :: "board \<Rightarrow> expr list \<Rightarrow> string \<Rightarrow> label \<Rightarrow> bool" where
  "forced b clues n l = (\<forall>m. is_model b clues m \<longrightarrow> m n = Some l)"

definition row_major :: "position \<Rightarrow> position \<Rightarrow> bool" where
  "row_major p q = (fst p < fst q \<or> (fst p = fst q \<and> snd p \<le> snd q))"














section \<open>Sample inputs\<close>

text \<open>A revealed card, a card without a name element, a hidden card, and a page that
  holds the three in its grid.\<close>

definition sample_card :: node where
  "sample_card =
     Element ''div'' [''card'', ''flipped'', ''innocent'']
       [Element ''div'' [''coord''] [TextNode '' A1 ''],
        Element ''div'' [''name''] [Element ''h3'' [] [TextNode ''Alice'']],
        Element ''p'' [''profession''] [TextNode ''sleuth''],
        Element ''p'' [''hint''] [TextNode ''Bob is a criminal'']]"

definition nameless_card :: node where
  "nameless_card =
     Element ''div'' [''card'']
       [Element ''div'' [''coord''] [TextNode ''B1''],
        Element ''p'' [''profession''] [TextNode ''cook'']]"

definition unknown_card :: node where
  "unknown_card =
     Element ''div'' [''card'', ''broken'']
       [Element ''div'' [''coord''] [TextNode ''C1''],
        Element ''div'' [''name''] [Element ''h3'' [] [TextNode ''Bob'']],
        Element ''p'' [''profession''] [TextNode ''judge'']]"

definition sample_document :: node where
  "sample_document =
     Element ''html'' []
       [Element ''body'' []
          [Element ''div'' [''card-grid'']
             [Element ''div'' [] [sample_card],
              Element ''div'' [] [nameless_card],
              Element ''div'' [] [unknown_card]]]]"

text \<open>A page whose grid holds the given cards, each in a \<open>div\<close> of its own; the
  character on the revealed sample card; a network that is down.\<close>

definition grid_page :: "node list \<Rightarrow> node" where
  "grid_page cards =
     Element ''html'' []
       [Element ''body'' []
          [Element ''div'' [''card-grid''] (map (\<lambda>c. Element ''div'' [] [c]) cards)]]"

text \<open>A card whose coordinate lies outside a grid of 5 rows and 4 columns, and a page of two
  cards that both have a coordinate, a name and a profession.\<close>

definition far_card :: node where
  "far_card =
     Element ''div'' [''card'']
       [Element ''div'' [''coord''] [TextNode ''F7''],
        Element ''div'' [''name''] [Element ''h3'' [] [TextNode ''Zoe'']],
        Element ''p'' [''profession''] [TextNode ''pilot'']]"

definition two_card_page :: node where
  "two_card_page = grid_page [sample_card, far_card]"

definition alice :: character where
  "alice = \<lparr>name = ''Alice'', profession = ''sleuth'', coord = ''A1'', label = ''innocent'',
           hint = Some ''Bob is a criminal''\<rparr>"

definition offline :: "request \<Rightarrow> js_error + jsval" where
  "offline req = Inl (TypeError ''Failed to fetch'')"

text \<open>An environment in which the Python server recommends a move and both vision
  models answer that no move is certain; and a server that reports no move.\<close>

definition sample_env :: env where
  "sample_env =
     \<lparr> document = sample_document,
       python_server = (\<lambda>cs. Response True 200 ''OK''
          (Inr (JObj [(''success'', JBool True),
                      (''recommendation'',
                         JObj [(''character'', JStr ''Bob''),
                               (''label'', JStr ''criminal''),
                               (''reasoning'', JStr ''Alice states Bob is criminal.''),
                               (''confidence'', JStr ''high'')])]))),
       screenshot_reply =
         \<lparr>lastError = None,
          response = JObj [(''success'', JBool True), (''screenshot'', JStr ''iVBORw0KGgo='')]\<rparr>,
       claude_reply = (\<lambda>s k m.
         \<lparr>lastError = None,
          response = JObj [(''success'', JBool False),
                           (''error'', JStr ''Claude API fetch failed: No certain moves available'')]\<rparr>),
       openai_reply = (\<lambda>s k.
         \<lparr>lastError = None,
          response = JObj [(''success'', JBool False),
                           (''error'', JStr ''No certain moves available'')]\<rparr>) \<rparr>"


text \<open>A background worker that answers as the one of \<open>sample_env\<close> for the model names
  that start with \<open>claude\<close>, and differently for every other name.\<close>

definition other_claude_reply :: "jsval \<Rightarrow> string \<Rightarrow> string \<Rightarrow> message_reply" where
  "other_claude_reply s k m =
     (if startsWith m ''claude'' then claude_reply sample_env s k m
      else \<lparr>lastError = Some ''no such model'', response = JUndefined\<rparr>)"

definition failing_server :: "character list \<Rightarrow> fetch_result" where
  "failing_server cs =
     Response True 200 ''OK''
       (Inr (JObj [(''success'', JBool False), (''error'', JStr ''No certain moves available'')]))"

subsection \<open>Boards and clues of the deduction core\<close>

text \<open>
  The 2 x 1 board of the specification's scenario A with its clue, and a 2 x 2 board with
  two unresolved entities.
\<close>

definition board21 :: board where
  "board21 =
     \<lparr>entities =
        [\<lparr>entity_name = ''A'', entity_profession = ''cook'', position = (0, 0), state = Known Criminal\<rparr>,
         \<lparr>entity_name = ''B'', entity_profession = ''judge'', position = (1, 0), state = Unresolved\<rparr>],
      rows = 2, cols = 1\<rparr>"

definition clueA :: expr where
  "clueA =
     Equal (Count (Filter (Neighbors (CharacterRef ''A'')) (HasLabel None Criminal)))
           (Literal (Number 0))"

definition board22 :: board where
  "board22 =
     \<lparr>entities =
        [\<lparr>entity_name = ''A'', entity_profession = ''cook'', position = (0, 0), state = Known Criminal\<rparr>,
         \<lparr>entity_name = ''B'', entity_profession = ''judge'', position = (0, 1), state = Unresolved\<rparr>,
         \<lparr>entity_name = ''C'', entity_profession = ''clerk'', position = (1, 0), state = Unresolved\<rparr>,
         \<lparr>entity_name = ''D'', entity_profession = ''pilot'', position = (1, 1), state = Known Innocent\<rparr>],
      rows = 2, cols = 2\<rparr>"

definition two_criminals :: expr where
  "two_criminals =
     Equal (Count (Filter AllCharacters (HasLabel None Criminal))) (Literal (Number 2))"

definition b_is_criminal :: expr where
  "b_is_criminal = HasLabel (Some (CharacterRef ''B'')) Criminal"




section \<open>Properties of the content script\<close>

lemma parse_cards_characters:
  "characters (parse_cards parser cards gs) =
     characters gs @ concat (map (\<lambda>cardElement. parsed_character (parser cardElement)) cards)"
  by (induction cards arbitrary: gs) (auto split: sum.splits option.splits)

text \<open>
  C9. For every card element, \<open>parseCharacterCard\<close> returns \<open>null\<close> or an object whose
  label is one of \<open>innocent\<close>, \<open>criminal\<close>, \<open>unknown\<close>; the label is \<open>innocent\<close> or
  \<open>criminal\<close> only when the card carries the class \<open>flipped\<close>; and the result is
  \<open>null\<close> exactly when the card has no \<open>.coord\<close>, no \<open>.name h3\<close> or no
  \<open>.profession\<close> element.
\<close>

theorem parseCharacterCard_label_and_null:
  "(\<forall>ch. parseCharacterCard c = Some ch \<longrightarrow>
      label ch \<in> {''innocent'', ''criminal'', ''unknown''} \<and>
      (label ch \<in> {''innocent'', ''criminal''} \<longrightarrow> ''flipped'' \<in> set (classList (snd c)))) \<and>
   (parseCharacterCard c = None \<longleftrightarrow>
      (querySelector c (Simple (ClassSel ''coord'')) = None \<or>
       querySelector c (Descendant (ClassSel ''name'') (TagSel ''h3'')) = None \<or>
       querySelector c (Simple (ClassSel ''profession'')) = None))"
  by (auto simp: parseCharacterCard_def card_label_def split: option.splits)

theorem parseCharacterCard_witness:
  "parseCharacterCard ([], sample_card) =
     Some \<lparr>name = ''Alice'', profession = ''sleuth'', coord = ''A1'', label = ''innocent'',
           hint = Some ''Bob is a criminal''\<rparr> \<and>
   ''flipped'' \<in> set (classList sample_card) \<and>
   parseCharacterCard ([], nameless_card) = None \<and>
   querySelector ([], nameless_card) (Descendant (ClassSel ''name'') (TagSel ''h3'')) = None"
proof -
  have a: "parseCharacterCard ([], sample_card) =
     Some \<lparr>name = ''Alice'', profession = ''sleuth'', coord = ''A1'', label = ''innocent'',
           hint = Some ''Bob is a criminal''\<rparr>"
    by code_simp
  have b: "querySelector ([], nameless_card) (Descendant (ClassSel ''name'') (TagSel ''h3'')) = None"
    by code_simp
  from a parseCharacterCard_label_and_null [of "([], sample_card)"]
  have "''flipped'' \<in> set (classList sample_card)" by simp
  moreover from b parseCharacterCard_label_and_null [of "([], nameless_card)"]
  have "parseCharacterCard ([], nameless_card) = None" by simp
  ultimately show ?thesis using a b by simp
qed

text \<open>
  C10. \<open>parseGameState\<close> throws only when the page has no \<open>.card-grid\<close> element.
  Otherwise it returns the characters of the cards \<open>div > .card\<close> under the grid, in
  document order, leaving out each card whose parser threw or returned \<open>null\<close>. The
  statement holds for any card parser, and \<open>parseGameState\<close> is the loop run with
  \<open>parseCharacterCard\<close>.
\<close>

theorem parseGameState_result:
  "parseGameState_with parser doc =
     (case document_querySelector doc (Simple (ClassSel ''card-grid'')) of
        None \<Rightarrow> Inl (Error ''Game grid not found on page'')
      | Some gridContainer \<Rightarrow>
          Inr \<lparr>characters =
                 concat (map (\<lambda>c. parsed_character (parser c))
                   (querySelectorAll gridContainer (Child (TagSel ''div'') (ClassSel ''card''))))\<rparr>) \<and>
   ((\<exists>e. parseGameState_with parser doc = Inl e) \<longleftrightarrow>
      document_querySelector doc (Simple (ClassSel ''card-grid'')) = None) \<and>
   parseGameState doc = parseGameState_with (\<lambda>c. Inr (parseCharacterCard c)) doc"
proof -
  have "parse_cards parser cards \<lparr>characters = []\<rparr> =
          \<lparr>characters = concat (map (\<lambda>c. parsed_character (parser c)) cards)\<rparr>" for cards
    using parse_cards_characters [of parser cards "\<lparr>characters = []\<rparr>"]
    by (cases "parse_cards parser cards \<lparr>characters = []\<rparr>") simp
  then show ?thesis
    by (simp add: parseGameState_with_def parseGameState_def split: option.splits)
qed


theorem parseGameState_witness:
  "parseGameState sample_document =
     Inr \<lparr>characters =
       [\<lparr>name = ''Alice'', profession = ''sleuth'', coord = ''A1'', label = ''innocent'',
          hint = Some ''Bob is a criminal''\<rparr>,
        \<lparr>name = ''Bob'', profession = ''judge'', coord = ''C1'', label = ''unknown'',
          hint = None\<rparr>]\<rparr> \<and>
   parseGameState_with
     (\<lambda>c. if ''broken'' \<in> set (classList (snd c)) then Inl (TypeError ''broken card'')
          else Inr (parseCharacterCard c)) sample_document =
     Inr \<lparr>characters =
       [\<lparr>name = ''Alice'', profession = ''sleuth'', coord = ''A1'', label = ''innocent'',
          hint = Some ''Bob is a criminal''\<rparr>]\<rparr> \<and>
   document_querySelector sample_card (Simple (ClassSel ''card-grid'')) = None \<and>
   parseGameState sample_card = Inl (Error ''Game grid not found on page'')"
proof -
  have a: "parseGameState sample_document =
     Inr \<lparr>characters =
       [\<lparr>name = ''Alice'', profession = ''sleuth'', coord = ''A1'', label = ''innocent'',
          hint = Some ''Bob is a criminal''\<rparr>,
        \<lparr>name = ''Bob'', profession = ''judge'', coord = ''C1'', label = ''unknown'',
          hint = None\<rparr>]\<rparr>"
    by code_simp
  have b: "parseGameState_with
     (\<lambda>c. if ''broken'' \<in> set (classList (snd c)) then Inl (TypeError ''broken card'')
          else Inr (parseCharacterCard c)) sample_document =
     Inr \<lparr>characters =
       [\<lparr>name = ''Alice'', profession = ''sleuth'', coord = ''A1'', label = ''innocent'',
          hint = Some ''Bob is a criminal''\<rparr>]\<rparr>"
    by code_simp
  have c: "document_querySelector sample_card (Simple (ClassSel ''card-grid'')) = None"
    by code_simp
  from c parseGameState_result [of "\<lambda>c. Inr (parseCharacterCard c)" sample_card]
  have "parseGameState sample_card = Inl (Error ''Game grid not found on page'')"
    by simp
  then show ?thesis using a b c by simp
qed

section \<open>Properties of the background worker\<close>

lemma analyzeWithClaude_rejects_key:
  "\<not> startsWith apiKey ''sk-ant-'' \<Longrightarrow>
     analyzeWithClaude reply screenshot apiKey m =
       ([], Inl (Error ''Invalid Anthropic API key format. Must start with \"sk-ant-\"''))"
  by (simp add: analyzeWithClaude_def)

lemma claudeModel_default:
  "m \<notin> set (map fst modelMapping) \<Longrightarrow> m \<notin> set (map fst object_prototype) \<Longrightarrow>
     claudeModel m = JStr ''claude-sonnet-4-20250514''"
  by (simp add: claudeModel_def object_get_def js_or_def modelMapping_def object_prototype_def)

lemma claudeModel_mapped:
  "claudeModel ''claude-sonnet-4'' = JStr ''claude-sonnet-4-20250514'' \<and>
   claudeModel ''claude-opus-4-1'' = JStr ''claude-opus-4-1-20250805''"
  by (simp add: claudeModel_def object_get_def js_or_def modelMapping_def object_prototype_def)

lemma claude_name_not_inherited:
  "startsWith m ''claude'' \<Longrightarrow> m \<notin> set (map fst object_prototype)"
  by (auto simp: startsWith_def object_prototype_def)

lemma analyzeWithClaude_model:
  "startsWith apiKey ''sk-ant-'' \<Longrightarrow>
     map model (fst (analyzeWithClaude reply screenshot apiKey m)) = [claudeModel m]"
  by (simp add: analyzeWithClaude_def Let_def)

lemma handleSolveMove_claude_reply:
  assumes "\<forall>s k m. startsWith m ''claude'' \<longrightarrow> r s k m = claude_reply env s k m"
  shows "handleSolveMove (env\<lparr>claude_reply := r\<rparr>) apiKey solverModeArg =
           handleSolveMove env apiKey solverModeArg"
proof -
  have a: "takeScreenshot (env\<lparr>claude_reply := r\<rparr>) = takeScreenshot env"
    by (simp add: takeScreenshot_def)
  have b: "analyzeWithOpenAIViaBackground (env\<lparr>claude_reply := r\<rparr>) = analyzeWithOpenAIViaBackground env"
    by (simp add: fun_eq_iff analyzeWithOpenAIViaBackground_def)
  have c: "analyzeWithPythonServer (env\<lparr>claude_reply := r\<rparr>) = analyzeWithPythonServer env"
    by (simp add: fun_eq_iff analyzeWithPythonServer_def)
  have d: "startsWith m ''claude'' \<Longrightarrow>
      analyzeWithClaudeViaBackground (env\<lparr>claude_reply := r\<rparr>) s k m =
      analyzeWithClaudeViaBackground env s k m" for s k m
    using assms by (simp add: analyzeWithClaudeViaBackground_def)
  show ?thesis
    by (simp add: handleSolveMove_def a b c d Let_def cong: if_cong)
qed

text \<open>
  The default is not taken for a name every object inherits: \<open>modelMapping[model]\<close>
  finds the inherited property, which is truthy. With the name \<open>constructor\<close> the
  request's model is the built-in \<open>Object\<close> function. \<open>handleSolveMove\<close> passes no such
  name: it calls the background worker's \<open>analyzeWithClaude\<close> with its solver mode, and
  only when that starts with \<open>claude\<close> (\<open>handleSolveMove_claude_reply\<close>).
\<close>

lemma claudeModel_inherited_name:
  "map model (fst (analyzeWithClaude reply screenshot ''sk-ant-api03-key'' ''constructor'')) =
     [JNative ''Object''] \<and>
   claudeModel ''constructor'' \<noteq> JStr ''claude-sonnet-4-20250514''"
  by (simp add: analyzeWithClaude_def startsWith_def claudeModel_def object_get_def js_or_def
      modelMapping_def object_prototype_def Let_def)

text \<open>
  C8. \<open>analyzeWithClaude\<close> throws the key-format error, with no request issued, for
  every key that does not start with \<open>sk-ant-\<close>. A model name outside the mapping is
  replaced by the default identifier \<open>claude-sonnet-4-20250514\<close>, in \<open>claudeModel\<close>
  and in the request issued, for every name the function can receive: these are the
  solver modes that start with \<open>claude\<close>, since the answer of \<open>handleSolveMove\<close> depends
  on the background worker's \<open>analyzeWithClaude\<close> at such names only. The replacement
  holds as well for every other name that is not a property inherited from
  \<open>Object.prototype\<close>.
\<close>

theorem analyzeWithClaude_key_check_and_default_model:
  "(\<not> startsWith apiKey ''sk-ant-'' \<longrightarrow>
      analyzeWithClaude reply screenshot apiKey modelName =
        ([], Inl (Error ''Invalid Anthropic API key format. Must start with \"sk-ant-\"''))) \<and>
   (modelName \<notin> {''claude-sonnet-4'', ''claude-opus-4-1''} \<and>
    (startsWith modelName ''claude'' \<or> modelName \<notin> set (map fst object_prototype)) \<longrightarrow>
      claudeModel modelName = JStr ''claude-sonnet-4-20250514'' \<and>
      (startsWith apiKey ''sk-ant-'' \<longrightarrow>
         map model (fst (analyzeWithClaude reply screenshot apiKey modelName)) =
           [JStr ''claude-sonnet-4-20250514''])) \<and>
   ((\<forall>s k m. startsWith m ''claude'' \<longrightarrow> r s k m = claude_reply env s k m) \<longrightarrow>
      handleSolveMove (env\<lparr>claude_reply := r\<rparr>) key solverModeArg =
        handleSolveMove env key solverModeArg)"
proof -
  have "claudeModel modelName = JStr ''claude-sonnet-4-20250514''"
    if "modelName \<notin> {''claude-sonnet-4'', ''claude-opus-4-1''}"
      and "startsWith modelName ''claude'' \<or> modelName \<notin> set (map fst object_prototype)"
    using that claude_name_not_inherited [of modelName] claudeModel_default [of modelName]
    by (auto simp: modelMapping_def)
  then show ?thesis
    using analyzeWithClaude_rejects_key [of apiKey reply screenshot modelName]
      analyzeWithClaude_model [of apiKey reply screenshot modelName]
      handleSolveMove_claude_reply [of r env key solverModeArg]
    by auto
qed

theorem analyzeWithClaude_key_check_and_default_model_witness:
  "analyzeWithClaude offline ''iVBORw0KGgo='' ''sk-proj-key'' ''claude-sonnet-4'' =
     ([], Inl (Error ''Invalid Anthropic API key format. Must start with \"sk-ant-\"'')) \<and>
   claudeModel ''claude-3-haiku'' = JStr ''claude-sonnet-4-20250514'' \<and>
   map model (fst (analyzeWithClaude offline ''iVBORw0KGgo='' ''sk-ant-api03-key'' ''claude-3-haiku'')) =
     [JStr ''claude-sonnet-4-20250514''] \<and>
   handleSolveMove (sample_env\<lparr>claude_reply := other_claude_reply\<rparr>) ''sk-ant-api03-key'' (Some ''gpt-4o'') =
     handleSolveMove sample_env ''sk-ant-api03-key'' (Some ''gpt-4o'')"
proof -
  have k1: "\<not> startsWith ''sk-proj-key'' ''sk-ant-''"
    and k2: "startsWith ''sk-ant-api03-key'' ''sk-ant-''"
    and k3: "startsWith ''claude-3-haiku'' ''claude''"
    and k4: "''claude-3-haiku'' \<notin> {''claude-sonnet-4'', ''claude-opus-4-1''}"
    by (simp_all add: startsWith_def)
  have o: "\<forall>s k m. startsWith m ''claude'' \<longrightarrow> other_claude_reply s k m = claude_reply sample_env s k m"
    by (simp add: other_claude_reply_def)
  note t = analyzeWithClaude_key_check_and_default_model
    [of "''sk-proj-key''" offline "''iVBORw0KGgo=''" "''claude-sonnet-4''" other_claude_reply sample_env
       "''sk-ant-api03-key''" "Some ''gpt-4o''"]
  note u = analyzeWithClaude_key_check_and_default_model
    [of "''sk-ant-api03-key''" offline "''iVBORw0KGgo=''" "''claude-3-haiku''"]
  note a = t [THEN conjunct1, THEN mp, OF k1]
  note d = t [THEN conjunct2, THEN conjunct2, THEN mp, OF o]
  note v = u [THEN conjunct2, THEN conjunct1, THEN mp, OF conjI [OF k4 disjI1 [OF k3]]]
  note b = v [THEN conjunct1]
  note c = v [THEN conjunct2, THEN mp, OF k2]
  show ?thesis
    by (intro conjI a b c d)
qed

lemma prompt_states_5x4: "states_5x4_grid prompt"
  by (simp add: states_5x4_grid_def prompt_def prompt_lines_def startsWith_def)

lemma sample_card_parsed: "parseCharacterCard (anc, sample_card) = Some alice"
  by (simp add: sample_card_def alice_def parseCharacterCard_def querySelector_def descendants_def
      card_label_def card_hint_def trim_def is_white_space_def)


lemma grid_page_grid:
  "document_querySelector (grid_page cards) (Simple (ClassSel ''card-grid'')) =
     Some ([Element ''body'' []
              [Element ''div'' [''card-grid''] (map (\<lambda>c. Element ''div'' [] [c]) cards)],
            grid_page cards],
           Element ''div'' [''card-grid''] (map (\<lambda>c. Element ''div'' [] [c]) cards))"
  by (simp add: grid_page_def document_querySelector_def)

lemma sample_card_cards:
  "filter (\<lambda>e. matches e (Child (TagSel ''div'') (ClassSel ''card'')))
     (elements_of anc (Element ''div'' [] [sample_card])) =
   [(Element ''div'' [] [sample_card] # anc, sample_card)]"
  by (simp add: sample_card_def)

lemma replicate_cards:
  "filter (\<lambda>e. matches e (Child (TagSel ''div'') (ClassSel ''card'')))
     (concat (map (elements_of anc) (replicate n (Element ''div'' [] [sample_card])))) =
   replicate n (Element ''div'' [] [sample_card] # anc, sample_card)"
  by (induction n) (simp_all add: sample_card_cards del: elements_of.simps)

lemma grid_page_parsed:
  "parseGameState (grid_page (replicate n sample_card)) = Inr \<lparr>characters = replicate n alice\<rparr>"
proof -
  let ?grid = "Element ''div'' [''card-grid''] (map (\<lambda>c. Element ''div'' [] [c]) (replicate n sample_card))"
  let ?anc = "[Element ''body'' [] [?grid], grid_page (replicate n sample_card)]"
  have cards: "querySelectorAll (?anc, ?grid) (Child (TagSel ''div'') (ClassSel ''card'')) =
      replicate n (Element ''div'' [] [sample_card] # ?grid # ?anc, sample_card)"
    using replicate_cards [of "?grid # ?anc" n]
    by (simp add: querySelectorAll_def descendants_def)
  have "characters (parse_cards (\<lambda>c. Inr (parseCharacterCard c))
          (replicate n (Element ''div'' [] [sample_card] # ?grid # ?anc, sample_card))
          \<lparr>characters = []\<rparr>) = replicate n alice"
    by (induction n) (simp_all add: parse_cards_characters sample_card_parsed)
  then have "parse_cards (\<lambda>c. Inr (parseCharacterCard c))
          (replicate n (Element ''div'' [] [sample_card] # ?grid # ?anc, sample_card))
          \<lparr>characters = []\<rparr> = \<lparr>characters = replicate n alice\<rparr>"
    by (cases "parse_cards (\<lambda>c. Inr (parseCharacterCard c))
          (replicate n (Element ''div'' [] [sample_card] # ?grid # ?anc, sample_card))
          \<lparr>characters = []\<rparr>") simp
  then show ?thesis
    using cards grid_page_grid [of "replicate n sample_card"]
    by (simp add: parseGameState_def parseGameState_with_def)
qed

lemma parsed_characters_map_filter:
  "concat (map (\<lambda>c. parsed_character (Inr (parseCharacterCard c))) cards) =
     List.map_filter parseCharacterCard cards"
  by (induction cards) (auto simp: List.map_filter_simps split: option.splits)

lemma parseGameState_characters:
  assumes "document_querySelector doc (Simple (ClassSel ''card-grid'')) = Some gridContainer"
  shows "parseGameState doc =
     Inr \<lparr>characters = List.map_filter parseCharacterCard
            (querySelectorAll gridContainer (Child (TagSel ''div'') (ClassSel ''card'')))\<rparr>"
proof -
  have "parse_cards (\<lambda>c. Inr (parseCharacterCard c)) cards \<lparr>characters = []\<rparr> =
          \<lparr>characters = List.map_filter parseCharacterCard cards\<rparr>" for cards
    using parse_cards_characters [of "\<lambda>c. Inr (parseCharacterCard c)" cards "\<lparr>characters = []\<rparr>"]
    by (cases "parse_cards (\<lambda>c. Inr (parseCharacterCard c)) cards \<lparr>characters = []\<rparr>")
       (simp add: parsed_characters_map_filter)
  with assms show ?thesis
    by (simp add: parseGameState_def parseGameState_with_def)
qed

lemma parseCharacterCard_None:
  "parseCharacterCard c = None \<longleftrightarrow>
     (querySelector c (Simple (ClassSel ''coord'')) = None \<or>
      querySelector c (Descendant (ClassSel ''name'') (TagSel ''h3'')) = None \<or>
      querySelector c (Simple (ClassSel ''profession'')) = None)"
  by (auto simp: parseCharacterCard_def split: option.splits)

lemma parseCharacterCard_coord:
  "parseCharacterCard c = Some ch \<Longrightarrow>
     \<exists>coordElement. querySelector c (Simple (ClassSel ''coord'')) = Some coordElement \<and>
        coord ch = trim (textContent (snd coordElement))"
  by (auto simp: parseCharacterCard_def split: option.splits)

lemma map_filter_all:
  "\<forall>c \<in> set cards. f c \<noteq> None \<Longrightarrow> List.map_filter f cards = map (\<lambda>c. the (f c)) cards"
  by (induction cards) (auto simp: List.map_filter_simps)

lemma handleSolveMove_python_recommendation:
  assumes "document_querySelector (document env) (Simple (ClassSel ''card-grid'')) = Some gridContainer"
    and "python_server env
           (List.map_filter parseCharacterCard
              (querySelectorAll gridContainer (Child (TagSel ''div'') (ClassSel ''card'')))) =
         Response True status statusText (Inr (JObj ds))"
    and "truthy (object_get ds ''success'')"
    and "object_get ds ''recommendation'' = JObj fs"
  shows "solveMove_response env apiKey (Some ''python'') =
     Some (JObj [(''success'', JBool True),
                 (''character'', object_get fs ''character''),
                 (''label'', object_get fs ''label''),
                 (''reasoning'', object_get fs ''reasoning''),
                 (''confidence'', object_get fs ''confidence''),
                 (''source'', JStr ''py-analyzer'')])"
  using assms parseGameState_characters [OF assms(1)]
  by (simp add: solveMove_response_def handleSolveMove_def await_def throwing_def
      analyzeWithPythonServer_def and_then_def)


lemma complete_cards_characters:
  assumes "document_querySelector doc (Simple (ClassSel ''card-grid'')) = Some gridContainer"
    and "\<forall>c \<in> set (querySelectorAll gridContainer (Child (TagSel ''div'') (ClassSel ''card''))).
           querySelector c (Simple (ClassSel ''coord'')) \<noteq> None \<and>
           querySelector c (Descendant (ClassSel ''name'') (TagSel ''h3'')) \<noteq> None \<and>
           querySelector c (Simple (ClassSel ''profession'')) \<noteq> None"
  shows "\<exists>gameState. parseGameState doc = Inr gameState \<and>
           length (characters gameState) =
             length (querySelectorAll gridContainer (Child (TagSel ''div'') (ClassSel ''card''))) \<and>
           map coord (characters gameState) =
             map (\<lambda>c. trim (textContent (snd (the (querySelector c (Simple (ClassSel ''coord'')))))))
               (querySelectorAll gridContainer (Child (TagSel ''div'') (ClassSel ''card'')))"
proof -
  let ?cards = "querySelectorAll gridContainer (Child (TagSel ''div'') (ClassSel ''card''))"
  from assms(2) have all: "\<forall>c \<in> set ?cards. parseCharacterCard c \<noteq> None"
    by (simp add: parseCharacterCard_None)
  have "coord (the (parseCharacterCard c)) =
          trim (textContent (snd (the (querySelector c (Simple (ClassSel ''coord''))))))"
    if "c \<in> set ?cards" for c
    using that all parseCharacterCard_coord [of c] by fastforce
  then have "map coord (map (\<lambda>c. the (parseCharacterCard c)) ?cards) =
      map (\<lambda>c. trim (textContent (snd (the (querySelector c (Simple (ClassSel ''coord'')))))))
        ?cards"
    by simp
  with parseGameState_characters [OF assms(1)] map_filter_all [OF all]
  show ?thesis by simp
qed

text \<open>
  C4, as the code has it. The claim that no part of the pipeline assumes a grid of 5 rows
  by 4 columns fails on the vision-model path: the request \<open>analyzeWithClaude\<close> issues
  carries the fixed prompt, which states a 5x4 grid.
\<close>

theorem prompt_assumes_5x4_counterexample:
  "fst (analyzeWithClaude offline ''iVBORw0KGgo='' ''sk-ant-api03-key'' ''claude-sonnet-4'') =
     [\<lparr>url = ''https://api.anthropic.com/v1/messages'',
       api_key = ''sk-ant-api03-key'',
       model = JStr ''claude-sonnet-4-20250514'',
       max_tokens = 1000,
       prompt_text = prompt,
       image_data = ''iVBORw0KGgo=''\<rparr>] \<and>
   states_5x4_grid prompt"
  using prompt_states_5x4 claudeModel_mapped
  by (simp add: analyzeWithClaude_def startsWith_def Let_def)

text \<open>
  C4, amended. Every request of \<open>analyzeWithClaude\<close> and \<open>analyzeWithOpenAI\<close> carries the
  same prompt whatever the screenshot shows, and that prompt states a 5x4 grid of 5 rows
  and 4 columns. The DOM path has no such assumption. On every page with a \<open>.card-grid\<close>,
  \<open>parseGameState\<close> returns the characters of exactly those cards \<open>div > .card\<close> under
  the grid that \<open>parseCharacterCard\<close> parses, in document order; a card is left out only
  for a missing \<open>.coord\<close>, \<open>.name h3\<close> or \<open>.profession\<close> element, never for what its
  coordinate says, and the coordinate of a character is the trimmed text of its card's
  \<open>.coord\<close> element. So a grid of \<open>n\<close> cards that all have the three elements gives
  \<open>n\<close> characters with the cards' own coordinates, for every \<open>n\<close>; for every \<open>n\<close> there
  is such a page. In Python mode \<open>handleSolveMove\<close> hands these characters to the
  server, and when the server answers with a recommendation object, the listener answers
  with its character, label, reasoning and confidence.
\<close>

theorem pipeline_grid_assumption:
  "(\<forall>req \<in> set (fst (analyzeWithClaude reply screenshot apiKey m)). prompt_text req = prompt) \<and>
   (startsWith apiKey ''sk-ant-'' \<longrightarrow> length (fst (analyzeWithClaude reply screenshot apiKey m)) = 1) \<and>
   (\<forall>req \<in> set (fst (analyzeWithOpenAI reply screenshot apiKey)). prompt_text req = prompt) \<and>
   length (fst (analyzeWithOpenAI reply screenshot apiKey)) = 1 \<and>
   states_5x4_grid prompt \<and>
   (document_querySelector doc (Simple (ClassSel ''card-grid'')) = Some gridContainer \<longrightarrow>
      parseGameState doc =
        Inr \<lparr>characters = List.map_filter parseCharacterCard
               (querySelectorAll gridContainer (Child (TagSel ''div'') (ClassSel ''card'')))\<rparr> \<and>
      ((\<forall>c \<in> set (querySelectorAll gridContainer (Child (TagSel ''div'') (ClassSel ''card''))).
           querySelector c (Simple (ClassSel ''coord'')) \<noteq> None \<and>
           querySelector c (Descendant (ClassSel ''name'') (TagSel ''h3'')) \<noteq> None \<and>
           querySelector c (Simple (ClassSel ''profession'')) \<noteq> None) \<longrightarrow>
       (\<exists>gameState. parseGameState doc = Inr gameState \<and>
           length (characters gameState) =
             length (querySelectorAll gridContainer (Child (TagSel ''div'') (ClassSel ''card''))) \<and>
           map coord (characters gameState) =
             map (\<lambda>c. trim (textContent (snd (the (querySelector c (Simple (ClassSel ''coord'')))))))
               (querySelectorAll gridContainer (Child (TagSel ''div'') (ClassSel ''card'')))))) \<and>
   (parseCharacterCard cardElement = None \<longleftrightarrow>
      (querySelector cardElement (Simple (ClassSel ''coord'')) = None \<or>
       querySelector cardElement (Descendant (ClassSel ''name'') (TagSel ''h3'')) = None \<or>
       querySelector cardElement (Simple (ClassSel ''profession'')) = None)) \<and>
   (\<forall>ch. parseCharacterCard cardElement = Some ch \<longrightarrow>
      (\<exists>coordElement. querySelector cardElement (Simple (ClassSel ''coord'')) = Some coordElement \<and>
         coord ch = trim (textContent (snd coordElement)))) \<and>
   parseGameState (grid_page (replicate n sample_card)) = Inr \<lparr>characters = replicate n alice\<rparr> \<and>
   (document_querySelector (document env) (Simple (ClassSel ''card-grid'')) = Some pageGrid \<and>
    python_server env
      (List.map_filter parseCharacterCard
         (querySelectorAll pageGrid (Child (TagSel ''div'') (ClassSel ''card'')))) =
      Response True status statusText (Inr (JObj ds)) \<and>
    truthy (object_get ds ''success'') \<and> object_get ds ''recommendation'' = JObj fs \<longrightarrow>
    solveMove_response env key (Some ''python'') =
      Some (JObj [(''success'', JBool True),
                  (''character'', object_get fs ''character''),
                  (''label'', object_get fs ''label''),
                  (''reasoning'', object_get fs ''reasoning''),
                  (''confidence'', object_get fs ''confidence''),
                  (''source'', JStr ''py-analyzer'')]))"
proof -
  have vision:
    "(\<forall>req \<in> set (fst (analyzeWithClaude reply screenshot apiKey m)). prompt_text req = prompt) \<and>
     (startsWith apiKey ''sk-ant-'' \<longrightarrow> length (fst (analyzeWithClaude reply screenshot apiKey m)) = 1) \<and>
     (\<forall>req \<in> set (fst (analyzeWithOpenAI reply screenshot apiKey)). prompt_text req = prompt) \<and>
     length (fst (analyzeWithOpenAI reply screenshot apiKey)) = 1 \<and>
     states_5x4_grid prompt"
    using prompt_states_5x4
    by (simp add: analyzeWithClaude_def analyzeWithOpenAI_def Let_def)
  show ?thesis
    apply (intro conjI impI allI)
    subgoal using vision by blast
    subgoal using vision by blast
    subgoal using vision by blast
    subgoal using vision by blast
    subgoal using vision by blast
    subgoal by (rule parseGameState_characters)
    subgoal by (rule complete_cards_characters)
    subgoal by (rule parseCharacterCard_None)
    subgoal by (rule parseCharacterCard_coord)
    subgoal by (rule grid_page_parsed)
    subgoal by (elim conjE) (rule handleSolveMove_python_recommendation)
    done
qed


theorem pipeline_grid_assumption_witness:
  "startsWith ''sk-ant-api03-key'' ''sk-ant-'' \<and>
   map prompt_text (fst (analyzeWithClaude offline ''iVBORw0KGgo=''
                           ''sk-ant-api03-key'' ''claude-sonnet-4'')) = [prompt] \<and>
   map prompt_text (fst (analyzeWithOpenAI offline ''iVBORw0KGgo='' ''sk-key'')) = [prompt] \<and>
   parseGameState (grid_page (replicate 6 sample_card)) = Inr \<lparr>characters = replicate 6 alice\<rparr> \<and>
   parseGameState sample_document =
     Inr \<lparr>characters =
       [alice,
        \<lparr>name = ''Bob'', profession = ''judge'', coord = ''C1'', label = ''unknown'',
          hint = None\<rparr>]\<rparr> \<and>
   (\<exists>gameState. parseGameState two_card_page = Inr gameState \<and>
      length (characters gameState) = 2 \<and> map coord (characters gameState) = [''A1'', ''F7'']) \<and>
   parseCharacterCard ([], nameless_card) = None \<and>
   (\<exists>ch. parseCharacterCard ([], sample_card) = Some ch \<and> coord ch = ''A1'') \<and>
   solveMove_response sample_env [] (Some ''python'') =
     Some (JObj [(''success'', JBool True),
                 (''character'', JStr ''Bob''),
                 (''label'', JStr ''criminal''),
                 (''reasoning'', JStr ''Alice states Bob is criminal.''),
                 (''confidence'', JStr ''high''),
                 (''source'', JStr ''py-analyzer'')])"
proof -
  let ?grid = "Simple (ClassSel ''card-grid'')"
  let ?card = "Child (TagSel ''div'') (ClassSel ''card'')"
  let ?coord = "Simple (ClassSel ''coord'')"
  let ?name = "Descendant (ClassSel ''name'') (TagSel ''h3'')"
  let ?profession = "Simple (ClassSel ''profession'')"
  let ?bob = "\<lparr>name = ''Bob'', profession = ''judge'', coord = ''C1'', label = ''unknown'',
               hint = None\<rparr>"
  let ?fs = "[(''character'', JStr ''Bob''),
              (''label'', JStr ''criminal''),
              (''reasoning'', JStr ''Alice states Bob is criminal.''),
              (''confidence'', JStr ''high'')]"
  let ?ds = "[(''success'', JBool True), (''recommendation'', JObj ?fs)]"
  let ?answer = "JObj [(''success'', JBool True),
                       (''character'', JStr ''Bob''),
                       (''label'', JStr ''criminal''),
                       (''reasoning'', JStr ''Alice states Bob is criminal.''),
                       (''confidence'', JStr ''high''),
                       (''source'', JStr ''py-analyzer'')]"
  define g where "g = the (document_querySelector sample_document ?grid)"
  define g2 where "g2 = the (document_querySelector two_card_page ?grid)"
  have k: "startsWith ''sk-ant-api03-key'' ''sk-ant-''"
    by (simp add: startsWith_def)
  have q1: "document_querySelector sample_document ?grid = Some g"
    unfolding g_def by code_simp
  have q2: "document_querySelector two_card_page ?grid = Some g2"
    unfolding g2_def by code_simp
  have cards: "List.map_filter parseCharacterCard (querySelectorAll g ?card) = [alice, ?bob]"
    unfolding g_def by code_simp
  have complete: "\<forall>c \<in> set (querySelectorAll g2 ?card).
      querySelector c ?coord \<noteq> None \<and> querySelector c ?name \<noteq> None \<and>
      querySelector c ?profession \<noteq> None"
    unfolding g2_def by code_simp
  have two: "length (querySelectorAll g2 ?card) = 2"
    unfolding g2_def by code_simp
  have coords:
    "map (\<lambda>c. trim (textContent (snd (the (querySelector c ?coord))))) (querySelectorAll g2 ?card) =
       [''A1'', ''F7'']"
    unfolding g2_def by code_simp
  have nameless: "querySelector ([], nameless_card) ?name = None"
    by code_simp
  have parsed: "parseCharacterCard ([], sample_card) = Some alice"
    by (rule sample_card_parsed)
  have a1: "querySelector ([], sample_card) ?coord =
      Some ([sample_card], Element ''div'' [''coord''] [TextNode '' A1 ''])"
    by code_simp
  have tr: "trim (textContent (Element ''div'' [''coord''] [TextNode '' A1 ''])) = ''A1''"
    by code_simp
  have page: "document sample_env = sample_document"
    by (simp add: sample_env_def)
  have srv: "python_server sample_env (List.map_filter parseCharacterCard (querySelectorAll g ?card)) =
      Response True 200 ''OK'' (Inr (JObj ?ds))"
    by (simp add: sample_env_def)
  have success: "truthy (object_get ?ds ''success'')"
    by code_simp
  have recommendation: "object_get ?ds ''recommendation'' = JObj ?fs"
    by code_simp
  have fields: "JObj [(''success'', JBool True),
                  (''character'', object_get ?fs ''character''),
                  (''label'', object_get ?fs ''label''),
                  (''reasoning'', object_get ?fs ''reasoning''),
                  (''confidence'', object_get ?fs ''confidence''),
                  (''source'', JStr ''py-analyzer'')] = ?answer"
    by code_simp
  note t = pipeline_grid_assumption [where reply = offline and screenshot = "''iVBORw0KGgo=''"
      and apiKey = "''sk-ant-api03-key''" and m = "''claude-sonnet-4''" and doc = sample_document
      and gridContainer = g and cardElement = "([], nameless_card)" and n = 6 and env = sample_env
      and pageGrid = g and status = 200 and statusText = "''OK''" and ds = "?ds" and fs = "?fs"
      and key = "[]"]
  note u = pipeline_grid_assumption [where reply = offline and screenshot = "''iVBORw0KGgo=''"
      and apiKey = "''sk-key''" and m = "''gpt-4o''" and doc = two_card_page
      and gridContainer = g2 and cardElement = "([], sample_card)"]
  note t_claude_prompt = t [THEN conjunct1]
  note t' = t [THEN conjunct2]
  note t_claude_single = t' [THEN conjunct1]
  note t'' = t' [THEN conjunct2, THEN conjunct2, THEN conjunct2, THEN conjunct2]
  note t_dom = t'' [THEN conjunct1]
  note t_null = t'' [THEN conjunct2, THEN conjunct1]
  note t_pages = t'' [THEN conjunct2, THEN conjunct2, THEN conjunct2, THEN conjunct1]
  note t_python = t'' [THEN conjunct2, THEN conjunct2, THEN conjunct2, THEN conjunct2]
  note u' = u [THEN conjunct2, THEN conjunct2]
  note u_openai_prompt = u' [THEN conjunct1]
  note u_openai_single = u' [THEN conjunct2, THEN conjunct1]
  note u'' = u' [THEN conjunct2, THEN conjunct2, THEN conjunct2]
  note u_dom = u'' [THEN conjunct1]
  note u_coord = u'' [THEN conjunct2, THEN conjunct2, THEN conjunct1]
  have single: "length xs = 1 \<Longrightarrow> \<forall>x \<in> set xs. f x = p \<Longrightarrow> map f xs = [p]"
    for xs :: "request list" and f :: "request \<Rightarrow> string" and p
    by (cases xs) auto
  have a: "map prompt_text (fst (analyzeWithClaude offline ''iVBORw0KGgo=''
                           ''sk-ant-api03-key'' ''claude-sonnet-4'')) = [prompt]"
    by (rule single [OF t_claude_single [THEN mp, OF k] t_claude_prompt])
  have b: "map prompt_text (fst (analyzeWithOpenAI offline ''iVBORw0KGgo='' ''sk-key'')) = [prompt]"
    by (rule single [OF u_openai_single u_openai_prompt])
  have d: "parseGameState sample_document = Inr \<lparr>characters = [alice, ?bob]\<rparr>"
    using t_dom [THEN mp, OF q1, THEN conjunct1] cards by simp
  have e: "\<exists>gameState. parseGameState two_card_page = Inr gameState \<and>
      length (characters gameState) = 2 \<and> map coord (characters gameState) = [''A1'', ''F7'']"
    using u_dom [THEN mp, OF q2, THEN conjunct2, THEN mp, OF complete] two coords by simp
  note f = t_null [THEN iffD2, OF disjI2 [OF disjI1 [OF nameless]]]
  from u_coord [THEN spec, THEN mp, OF parsed] a1 tr
  have h: "\<exists>ch. parseCharacterCard ([], sample_card) = Some ch \<and> coord ch = ''A1''"
    using parsed by auto
  have i: "solveMove_response sample_env [] (Some ''python'') = Some ?answer"
    using t_python [THEN mp, OF conjI [OF q1 [folded page] conjI [OF srv conjI [OF success recommendation]]]]
      fields
    by simp
  show ?thesis
    by (intro conjI k a b t_pages d e f h i)
qed

section \<open>Properties of the solveMove listener\<close>

text \<open>
  C3, as the code has it. The claim that every recommendation record carries an outcome
  kind fails: the record \<open>handleSolveMove\<close> returns for the Python server's
  recommendation has the fields \<open>success\<close>, \<open>character\<close>, \<open>label\<close>, \<open>reasoning\<close>,
  \<open>confidence\<close> and \<open>source\<close>, and none of them holds an outcome kind.
\<close>

theorem outcome_kind_counterexample:
  "solveMove_response sample_env [] (Some ''python'') =
     Some (JObj [(''success'', JBool True),
                 (''character'', JStr ''Bob''),
                 (''label'', JStr ''criminal''),
                 (''reasoning'', JStr ''Alice states Bob is criminal.''),
                 (''confidence'', JStr ''high''),
                 (''source'', JStr ''py-analyzer'')]) \<and>
   \<not> carries_outcome_kind
       (JObj [(''success'', JBool True),
                 (''character'', JStr ''Bob''),
                 (''label'', JStr ''criminal''),
                 (''reasoning'', JStr ''Alice states Bob is criminal.''),
                 (''confidence'', JStr ''high''),
                 (''source'', JStr ''py-analyzer'')])"
  by code_simp

lemma throwing_record_cases:
  "throwing
     (and_then (get_property analysis ''character'') (\<lambda>character.
      and_then (get_property analysis ''label'') (\<lambda>label.
      and_then (get_property analysis ''reasoning'') (\<lambda>reasoning.
      and_then (get_property analysis ''confidence'') (\<lambda>confidence.
        Inr (JObj [(''success'', JBool True),
                   (''character'', character),
                   (''label'', label),
                   (''reasoning'', reasoning),
                   (''confidence'', f confidence),
                   (''source'', JStr s)])))))) = Resolved r \<Longrightarrow> is_success_record r"
  by (auto simp: throwing_def and_then_def is_success_record_def split: sum.splits)

lemma handleSolveMove_resolved:
  "handleSolveMove env apiKey mode = Resolved r \<Longrightarrow> is_success_record r"
  unfolding handleSolveMove_def Let_def await_def
  by (auto split: if_splits promise.splits dest: throwing_record_cases [where f = "\<lambda>c. c"]
      throwing_record_cases [where f = "\<lambda>c. js_or c (JStr ''medium'')"])


lemma throwing_not_pending: "throwing r \<noteq> Pending"
  by (simp add: throwing_def split: sum.splits)

lemma analyzeWithPythonServer_not_pending: "analyzeWithPythonServer env gs \<noteq> Pending"
  by (simp add: analyzeWithPythonServer_def throwing_not_pending
      split: fetch_result.splits sum.splits)

lemma handleSolveMove_python_not_pending:
  "handleSolveMove env apiKey (Some ''python'') \<noteq> Pending"
  by (auto simp: handleSolveMove_def await_def throwing_not_pending
      analyzeWithPythonServer_not_pending split: promise.splits)

lemma failure_record_of_error:
  "is_failure_record
     (JObj [(''success'', JBool False),
            (''error'', js_or (JStr (message e)) (JStr ''An unexpected error occurred''))])"
  by (simp add: is_failure_record_def js_or_def)

lemma analyzeWithPythonServer_failure:
  assumes "python_server env (characters gs) = Response True st tx (Inr data)"
    and "get_property data ''success'' = Inr v" and "\<not> truthy v"
  shows "\<exists>e. analyzeWithPythonServer env gs = Rejected e"
  using assms
  by (auto simp: analyzeWithPythonServer_def throwing_def and_then_def split: sum.splits)

lemma handleSolveMove_python_failure:
  assumes "\<forall>cs. \<exists>st tx data v. python_server env cs = Response True st tx (Inr data) \<and>
             get_property data ''success'' = Inr v \<and> \<not> truthy v"
  shows "\<exists>e. handleSolveMove env apiKey (Some ''python'') = Rejected e"
proof (cases "parseGameState (document env)")
  case (Inl e)
  then show ?thesis by (simp add: handleSolveMove_def await_def throwing_def)
next
  case (Inr gs)
  from assms obtain st tx data v where
    "python_server env (characters gs) = Response True st tx (Inr data)"
    "get_property data ''success'' = Inr v" "\<not> truthy v"
    by blast
  then obtain e where "analyzeWithPythonServer env gs = Rejected e"
    using analyzeWithPythonServer_failure by blast
  with Inr show ?thesis by (simp add: handleSolveMove_def await_def throwing_def)
qed

text \<open>
  C3, amended. Whenever the listener answers, the answer is the success record
  \<open>handleSolveMove\<close> resolved with, or a failure record \<open>{success: false, error}\<close> with a
  non-empty message, built because \<open>handleSolveMove\<close> rejected. It answers nothing exactly
  when \<open>handleSolveMove\<close> never settles, which the Python mode excludes. A Python server
  that reports no recommendation (\<open>success\<close> falsy) always leads to a failure record, so
  a missing recommendation is reported and not ignored; what kind of failure it was is
  told by the message only.
\<close>

theorem solveMove_response_shape:
  "(\<forall>r. solveMove_response env apiKey mode = Some r \<longrightarrow>
        (is_success_record r \<and> handleSolveMove env apiKey mode = Resolved r) \<or>
        (is_failure_record r \<and> (\<exists>e. handleSolveMove env apiKey mode = Rejected e))) \<and>
   (solveMove_response env apiKey mode = None \<longleftrightarrow> handleSolveMove env apiKey mode = Pending) \<and>
   (mode = Some ''python'' \<longrightarrow> solveMove_response env apiKey mode \<noteq> None) \<and>
   (mode = Some ''python'' \<and>
    (\<forall>cs. \<exists>st tx data v. python_server env cs = Response True st tx (Inr data) \<and>
             get_property data ''success'' = Inr v \<and> \<not> truthy v) \<longrightarrow>
    (\<exists>r. solveMove_response env apiKey mode = Some r \<and> is_failure_record r))"
proof (intro conjI allI impI)
  fix r assume "solveMove_response env apiKey mode = Some r"
  then show "(is_success_record r \<and> handleSolveMove env apiKey mode = Resolved r) \<or>
        (is_failure_record r \<and> (\<exists>e. handleSolveMove env apiKey mode = Rejected e))"
    using handleSolveMove_resolved [of env apiKey mode] failure_record_of_error
    by (auto simp: solveMove_response_def split: promise.splits)
next
  show "solveMove_response env apiKey mode = None \<longleftrightarrow> handleSolveMove env apiKey mode = Pending"
    by (simp add: solveMove_response_def split: promise.splits)
next
  assume "mode = Some ''python''"
  then show "solveMove_response env apiKey mode \<noteq> None"
    using handleSolveMove_python_not_pending [of env apiKey]
    by (simp add: solveMove_response_def split: promise.splits)
next
  assume a: "mode = Some ''python'' \<and>
    (\<forall>cs. \<exists>st tx data v. python_server env cs = Response True st tx (Inr data) \<and>
             get_property data ''success'' = Inr v \<and> \<not> truthy v)"
  then obtain e where "handleSolveMove env apiKey mode = Rejected e"
    using handleSolveMove_python_failure [of env apiKey] by blast
  then show "\<exists>r. solveMove_response env apiKey mode = Some r \<and> is_failure_record r"
    using failure_record_of_error by (simp add: solveMove_response_def)
qed

theorem solveMove_response_shape_witness:
  "solveMove_response sample_env [] (Some ''python'') =
     Some (JObj [(''success'', JBool True),
                 (''character'', JStr ''Bob''),
                 (''label'', JStr ''criminal''),
                 (''reasoning'', JStr ''Alice states Bob is criminal.''),
                 (''confidence'', JStr ''high''),
                 (''source'', JStr ''py-analyzer'')]) \<and>
   handleSolveMove sample_env [] (Some ''python'') =
     Resolved (JObj [(''success'', JBool True),
                 (''character'', JStr ''Bob''),
                 (''label'', JStr ''criminal''),
                 (''reasoning'', JStr ''Alice states Bob is criminal.''),
                 (''confidence'', JStr ''high''),
                 (''source'', JStr ''py-analyzer'')]) \<and>
   solveMove_response (sample_env\<lparr>python_server := failing_server\<rparr>) [] (Some ''python'') =
     Some (JObj [(''success'', JBool False), (''error'', JStr ''No certain moves available'')]) \<and>
   is_failure_record (JObj [(''success'', JBool False), (''error'', JStr ''No certain moves available'')])"
proof -
  let ?ok = "JObj [(''success'', JBool True),
                 (''character'', JStr ''Bob''),
                 (''label'', JStr ''criminal''),
                 (''reasoning'', JStr ''Alice states Bob is criminal.''),
                 (''confidence'', JStr ''high''),
                 (''source'', JStr ''py-analyzer'')]"
  let ?ko = "JObj [(''success'', JBool False), (''error'', JStr ''No certain moves available'')]"
  have a: "solveMove_response sample_env [] (Some ''python'') = Some ?ok"
    by code_simp
  have b: "solveMove_response (sample_env\<lparr>python_server := failing_server\<rparr>) [] (Some ''python'') = Some ?ko"
    by code_simp
  have s: "\<not> is_failure_record ?ok"
    by (simp add: is_failure_record_def)
  have srv: "\<forall>cs. \<exists>st tx data v.
       python_server (sample_env\<lparr>python_server := failing_server\<rparr>) cs = Response True st tx (Inr data) \<and>
       get_property data ''success'' = Inr v \<and> \<not> truthy v"
    by (simp add: failing_server_def object_get_def)
  from solveMove_response_shape [of sample_env "[]" "Some ''python''"] a s
  have c: "handleSolveMove sample_env [] (Some ''python'') = Resolved ?ok"
    by blast
  from solveMove_response_shape [of "sample_env\<lparr>python_server := failing_server\<rparr>" "[]" "Some ''python''"] b srv
  have d: "is_failure_record ?ko"
    by auto
  show ?thesis using a b c d by blast
qed

section \<open>Properties of the deduction core\<close>

subsection \<open>The sugar expander\<close>

lemma map_idem:
  "(\<And>x. x \<in> set xs \<Longrightarrow> f (f x) = f x) \<Longrightarrow> map f (map f xs) = map f xs"
  by (induction xs) auto

lemma expand_idem: "expand (expand e) = expand e"
  by (induction e rule: expand.induct) (simp_all add: map_idem del: map_map)

lemma expand_not_sugar: "\<not> is_sugar (expand e)"
  by (cases e rule: expand.cases) simp_all

lemma operands_expand:
  "\<not> is_sugar e \<Longrightarrow> operands (expand e) = map expand (operands e)"
  by (cases e rule: expand.cases) simp_all

lemma canonical_expand: "canonical (expand e)"
  by (induction e rule: expand.induct) simp_all

lemma expand_canonical: "canonical e \<Longrightarrow> expand e = e"
  by (induction e rule: expand.induct) (simp_all add: map_idI)

lemma result_type_expand: "result_type (expand e) = result_type e"
  by (cases e rule: expand.cases) simp_all

lemma length_assignments: "length (assignments ns) = 2 ^ length ns"
  by (induction ns) simp_all


lemma type_of_normal [simp]: "type_of (normal v) = type_of v"
  by (cases v) simp_all



text \<open>
  C5. Sugar expansion is idempotent, its result is canonical, and on a canonical tree it
  is the identity. A node that is not a convenience form keeps its operands' number, each
  operand being expanded in its place, and every tree keeps its result type. (The result
  type is the type of every value the evaluator yields: \<open>result_type_sound\<close>.)
\<close>

theorem expand_idempotent:
  "expand (expand e) = expand e \<and>
   canonical (expand e) \<and>
   (canonical e \<longrightarrow> expand e = e) \<and>
   (\<not> is_sugar e \<longrightarrow>
      length (operands (expand e)) = length (operands e) \<and>
      operands (expand e) = map expand (operands e)) \<and>
   result_type (expand e) = result_type e"
  by (simp add: expand_idem canonical_expand expand_canonical operands_expand result_type_expand)

theorem expand_idempotent_witness:
  "canonical (Count (Filter (Neighbors (CharacterRef ''Alice'')) (HasLabel None Criminal))) \<and>
   expand (Count (Filter (Neighbors (CharacterRef ''Alice'')) (HasLabel None Criminal))) =
     Count (Filter (Neighbors (CharacterRef ''Alice'')) (HasLabel None Criminal)) \<and>
   expand (count_criminals (neighbors_of ''Alice'')) =
     Count (Filter (Neighbors (CharacterRef ''Alice'')) (HasLabel None Criminal)) \<and>
   \<not> is_sugar (Not' (criminals AllCharacters)) \<and>
   operands (expand (Not' (criminals AllCharacters))) =
     [Filter AllCharacters (HasLabel None Criminal)]"
proof -
  let ?c = "Count (Filter (Neighbors (CharacterRef ''Alice'')) (HasLabel None Criminal))"
  have a: "canonical ?c" by simp
  have b: "\<not> is_sugar (Not' (criminals AllCharacters))" by simp
  from a expand_idempotent [of ?c] have c: "expand ?c = ?c" by blast
  from b expand_idempotent [of "Not' (criminals AllCharacters)"]
  have "operands (expand (Not' (criminals AllCharacters))) =
          map expand (operands (Not' (criminals AllCharacters)))"
    by blast
  then have d: "operands (expand (Not' (criminals AllCharacters))) =
          [Filter AllCharacters (HasLabel None Criminal)]"
    by simp
  have e: "expand (count_criminals (neighbors_of ''Alice'')) = ?c" by simp
  from a b c d e show ?thesis by blast
qed

subsection \<open>The evaluator's position sets\<close>

text \<open>Every PositionSet the evaluator yields is canonical, so that equality of two of them
  is equality of sets and the length of one is the number of its members.\<close>

lemma canonical_mk_set: "canonical_set (mk_set ps)"
  by (simp add: canonical_set_def mk_set_def)

lemma canonical_filter: "canonical_set ps \<Longrightarrow> canonical_set (filter P ps)"
  by (simp add: canonical_set_def sorted_wrt_filter)

lemma sorted_product:
  fixes xs :: "nat list" and ys :: "nat list"
  shows "sorted xs \<Longrightarrow> distinct xs \<Longrightarrow> sorted ys \<Longrightarrow> sorted (List.product xs ys)"
proof (induction xs)
  case Nil
  then show ?case by simp
next
  case (Cons x xs)
  have "sorted (map (Pair x) ys)"
    using Cons.prems(3) by (induction ys) (auto simp: less_eq_prod_def)
  moreover have "p \<le> q" if "p \<in> set (map (Pair x) ys)" "q \<in> set (List.product xs ys)" for p q
  proof -
    from that Cons.prems(1,2) have "fst p = x" "fst q \<in> set xs" "x < fst q"
      by (fastforce simp: nat_less_le)+
    then show ?thesis by (simp add: less_eq_prod_def)
  qed
  ultimately show ?case using Cons by (simp add: sorted_append)
qed

lemma canonical_grid: "canonical_set (grid b)"
  by (simp add: canonical_set_def grid_def sorted_product distinct_product)

lemma members_canonical:
  "eval_members b pred ps = Inr qs \<Longrightarrow> canonical_set ps \<Longrightarrow> canonical_set qs \<and> set qs \<subseteq> set ps"
proof (induction ps arbitrary: qs)
  case Nil
  then show ?case by simp
next
  case (Cons p ps)
  from Cons.prems(1) obtain t rs where
    r: "eval_members b pred ps = Inr rs" "qs = (if t then p # rs else rs)"
    by (auto split: sum.splits)
  from Cons.prems(2) have "canonical_set ps" by (simp add: canonical_set_def)
  with Cons.IH [OF r(1)] have "canonical_set rs" "set rs \<subseteq> set ps" by simp_all
  with Cons.prems(2) r(2) show ?case
    by (auto simp: canonical_set_def)
qed

lemma node_sets:
  "directional f v = Inr (PositionSet ps) \<Longrightarrow> canonical_set ps"
  "union_all vs = Inr (PositionSet ps) \<Longrightarrow> canonical_set ps"
  "conjunction vs = Inr (PositionSet ps) \<Longrightarrow> canonical_set ps"
  "disjunction vs = Inr (PositionSet ps) \<Longrightarrow> canonical_set ps"
  "negation v = Inr (PositionSet ps) \<Longrightarrow> canonical_set ps"
  "count_members v = Inr (PositionSet ps) \<Longrightarrow> canonical_set ps"
  "sum_of v = Inr (PositionSet ps) \<Longrightarrow> canonical_set ps"
  "equal_values v u = Inr (PositionSet ps) \<Longrightarrow> canonical_set ps"
  "ordering r v u = Inr (PositionSet ps) \<Longrightarrow> canonical_set ps"
  "parity q v = Inr (PositionSet ps) \<Longrightarrow> canonical_set ps"
  "are_connected v = Inr (PositionSet ps) \<Longrightarrow> canonical_set ps"
  "has_label b l p = Inr (PositionSet ps) \<Longrightarrow> canonical_set ps"
  "has_profession b prof p = Inr (PositionSet ps) \<Longrightarrow> canonical_set ps"
  "is_unknown b p = Inr (PositionSet ps) \<Longrightarrow> canonical_set ps"
  "character_ref b n = Inr (PositionSet ps) \<Longrightarrow> canonical_set ps"
  by (auto simp: directional_def union_all_def conjunction_def disjunction_def
      negation_def count_members_def sum_of_def equal_values_def ordering_def parity_def
      are_connected_def has_label_def has_profession_def is_unknown_def character_ref_def
      and_then_def canonical_mk_set
      split: sum.splits if_splits option.splits label_state.splits)

lemma each_as_set:
  "each as_set vs = Inr sets \<Longrightarrow> vs = map PositionSet sets"
proof (induction vs arbitrary: sets)
  case Nil
  then show ?case by simp
next
  case (Cons v vs)
  then show ?case
    by (cases v) (auto simp: and_then_def split: sum.splits)
qed

lemma intersect_all_canonical:
  assumes "intersect_all vs = Inr (PositionSet ps)"
    and "\<forall>v \<in> set vs. \<forall>qs. v = PositionSet qs \<longrightarrow> canonical_set qs"
  shows "canonical_set ps"
proof -
  from assms(1) obtain s rest where e: "each as_set vs = Inr (s # rest)"
    "ps = filter (\<lambda>p. \<forall>t \<in> set rest. p \<in> set t) s"
    by (auto simp: intersect_all_def and_then_def split: sum.splits list.splits)
  from each_as_set [OF e(1)] assms(2) have "canonical_set s" by auto
  with e(2) show ?thesis by (simp add: canonical_filter)
qed

lemma normal_canonical: "normal v = PositionSet ps \<Longrightarrow> canonical_set ps"
  by (cases v) (auto simp: canonical_mk_set)

lemma eval_canonical_set:
  "eval b c e = Inr (PositionSet ps) \<Longrightarrow> canonical_set ps"
  "eval_list b c es = Inr vs \<Longrightarrow> \<forall>v \<in> set vs. \<forall>qs. v = PositionSet qs \<longrightarrow> canonical_set qs"
  "eval_members b pred qs = Inr rs \<Longrightarrow> True"
proof (induction b c e and b c es and b pred qs arbitrary: ps and vs and rs
    rule: eval_eval_list_eval_members.induct)
  case (10 b c src pred)
  from "10.prems" obtain v qs where
    v: "eval b c src = Inr v" "as_set v = Inr qs" "eval_members b pred qs = Inr ps"
    by (auto split: sum.splits)
  then have "v = PositionSet qs" by (cases v) auto
  with v(1) "10.IH"(1) have "canonical_set qs" by blast
  with members_canonical [OF v(3)] show ?case by simp
next
  case (11 b c es)
  then show ?case
    by (auto simp: and_then_def split: if_splits sum.splits intro: intersect_all_canonical)
qed (auto simp: and_then_def canonical_mk_set canonical_filter canonical_grid
      dest: node_sets normal_canonical split: sum.splits if_splits)

subsection \<open>Trial boards\<close>

lemma assign_simps [simp]:
  "entity_name (assign m e) = entity_name e"
  "entity_profession (assign m e) = entity_profession e"
  "position (assign m e) = position e"
  by (simp_all add: assign_def split: label_state.splits option.splits)

lemma assign_known: "state e \<noteq> Unresolved \<Longrightarrow> assign m e = e"
  by (simp add: assign_def split: label_state.splits)

lemma trial_board_simps [simp]:
  "rows (trial_board b m) = rows b"
  "cols (trial_board b m) = cols b"
  "entities (trial_board b m) = map (assign m) (entities b)"
  by (simp_all add: trial_board_def)

lemma find_map_assign:
  "(\<And>e. P (assign m e) = P e) \<Longrightarrow> find P (map (assign m) es) = map_option (assign m) (find P es)"
  by (induction es) auto

lemma entity_named_trial: "entity_named (trial_board b m) n = map_option (assign m) (entity_named b n)"
  by (simp add: entity_named_def find_map_assign)

lemma entity_at_trial: "entity_at (trial_board b m) p = map_option (assign m) (entity_at b p)"
  by (simp add: entity_at_def find_map_assign)

lemma grid_trial [simp]: "grid (trial_board b m) = grid b"
  by (simp add: grid_def)

lemma geometry_trial [simp]:
  "is_edge (trial_board b m) = is_edge b"
  "above_of (trial_board b m) = above_of b"
  "below_of (trial_board b m) = below_of b"
  "left_of_position (trial_board b m) = left_of_position b"
  "right_of_position (trial_board b m) = right_of_position b"
  "neighbors_of_position (trial_board b m) = neighbors_of_position b"
  by (auto simp: fun_eq_iff is_edge_def above_of_def below_of_def left_of_position_def
      right_of_position_def neighbors_of_position_def)

lemma character_ref_trial [simp]: "character_ref (trial_board b m) n = character_ref b n"
  by (simp add: character_ref_def entity_named_trial split: option.splits)

lemma has_profession_trial [simp]: "has_profession (trial_board b m) = has_profession b"
  by (auto simp: fun_eq_iff has_profession_def entity_at_trial split: option.splits)

lemma all_positions_trial [simp]: "map (position \<circ> assign m) es = map position es"
  by simp

lemma all_bound_trial:
  assumes "\<forall>n \<in> set (map entity_name (entities b)). bound b n"
  shows "trial_board b m = b"
proof -
  have "\<forall>e \<in> set (entities b). assign m e = e"
    using assms by (auto simp: bound_def intro: assign_known)
  then have "map (assign m) (entities b) = entities b"
    by (simp add: map_idI)
  then show ?thesis by (simp add: trial_board_def)
qed

text \<open>On a well-formed board the entity at the position of the entity named n is that entity.\<close>

lemma find_Some_mem: "find P xs = Some x \<Longrightarrow> x \<in> set xs \<and> P x"
  by (induction xs) (auto split: if_splits)

lemma entity_at_named:
  assumes "distinct (map position (entities b))" and "entity_named b n = Some e"
  shows "entity_at b (position e) = Some e"
proof -
  from assms(2) have mem: "e \<in> set (entities b)"
    by (auto simp: entity_named_def dest: find_Some_mem)
  then obtain e' where f: "entity_at b (position e) = Some e'"
    by (cases "entity_at b (position e)") (auto simp: entity_at_def find_None_iff)
  then have "e' \<in> set (entities b)" "position e' = position e"
    by (auto simp: entity_at_def dest: find_Some_mem)
  with mem assms(1) have "e' = e"
    by (metis distinct_map inj_onD)
  with f show ?thesis by simp
qed

lemma has_label_named_trial:
  assumes "wf_board b" and "bound b n" and "character_ref b n = Inr v" and "as_position v = Inr p"
  shows "has_label (trial_board b m) l p = has_label b l p"
    and "is_unknown (trial_board b m) p = is_unknown b p"
proof -
  from assms(3) obtain e where e: "entity_named b n = Some e" "v = Position (position e)"
    by (auto simp: character_ref_def split: option.splits)
  with assms(4) have p: "p = position e" by simp
  from e(1) have "e \<in> set (entities b)" "entity_name e = n"
    by (auto simp: entity_named_def dest: find_Some_mem)
  with assms(2) have "state e \<noteq> Unresolved" by (auto simp: bound_def)
  then have a: "assign m e = e" by (rule assign_known)
  from assms(1) e(1) have "entity_at b p = Some e"
    unfolding p by (intro entity_at_named) (simp_all add: wf_board_def)
  with a show "has_label (trial_board b m) l p = has_label b l p"
    and "is_unknown (trial_board b m) p = is_unknown b p"
    by (simp_all add: has_label_def is_unknown_def entity_at_trial)
qed


lemma named_Some: "named e = Some n \<Longrightarrow> e = CharacterRef n"
  by (cases e) simp_all

lemma fully_bound_simps:
  "fully_bound b (Above' e) = fully_bound b e"
  "fully_bound b (Below e) = fully_bound b e"
  "fully_bound b (LeftOf e) = fully_bound b e"
  "fully_bound b (RightOf e) = fully_bound b e"
  "fully_bound b (Neighbors e) = fully_bound b e"
  "fully_bound b (Filter src pred) = (fully_bound b src \<and> fully_bound b pred)"
  "fully_bound b (Intersection es) = (\<forall>e \<in> set es. fully_bound b e)"
  "fully_bound b (Union' es) = (\<forall>e \<in> set es. fully_bound b e)"
  "fully_bound b (And es) = (\<forall>e \<in> set es. fully_bound b e)"
  "fully_bound b (Or es) = (\<forall>e \<in> set es. fully_bound b e)"
  "fully_bound b (Not' e) = fully_bound b e"
  "fully_bound b (Count e) = fully_bound b e"
  "fully_bound b (Sum' e) = fully_bound b e"
  "fully_bound b (HasProfession (Some e) prof) = fully_bound b e"
  "fully_bound b (IsEdge (Some e)) = fully_bound b e"
  "fully_bound b (Equal e f) = (fully_bound b e \<and> fully_bound b f)"
  "fully_bound b (Greater e f) = (fully_bound b e \<and> fully_bound b f)"
  "fully_bound b (GreaterEqual e f) = (fully_bound b e \<and> fully_bound b f)"
  "fully_bound b (Less e f) = (fully_bound b e \<and> fully_bound b f)"
  "fully_bound b (LessEqual e f) = (fully_bound b e \<and> fully_bound b f)"
  "fully_bound b (IsOdd e) = fully_bound b e"
  "fully_bound b (IsEven e) = fully_bound b e"
  "fully_bound b (AreConnected e) = fully_bound b e"
  by (auto simp: fully_bound_def)

lemma fully_bound_all:
  "fully_bound b (HasLabel None l) \<Longrightarrow> trial_board b m = b"
  "fully_bound b (IsUnknown None) \<Longrightarrow> trial_board b m = b"
  "fully_bound b (HasLabel (Some e) l) \<Longrightarrow> named e = None \<Longrightarrow> trial_board b m = b"
  "fully_bound b (IsUnknown (Some e)) \<Longrightarrow> named e = None \<Longrightarrow> trial_board b m = b"
  by (auto simp: fully_bound_def intro!: all_bound_trial)

lemma fully_bound_named:
  "fully_bound b (HasLabel (Some (CharacterRef n)) l) \<Longrightarrow> bound b n"
  "fully_bound b (IsUnknown (Some (CharacterRef n))) \<Longrightarrow> bound b n"
  by (auto simp: fully_bound_def)

lemma agree:
  "wf_board b \<Longrightarrow> fully_bound b e \<Longrightarrow> eval (trial_board b m) c e = eval b c e"
  "wf_board b \<Longrightarrow> (\<forall>e \<in> set es. fully_bound b e) \<Longrightarrow>
     eval_list (trial_board b m) c es = eval_list b c es"
  "wf_board b \<Longrightarrow> fully_bound b pred \<Longrightarrow>
     eval_members (trial_board b m) pred ps = eval_members b pred ps"
proof (induction b c e and b c es and b pred ps rule: eval_eval_list_eval_members.induct)
  case (19 b c e l)
  show ?case
  proof (cases "named e")
    case None
    with 19 show ?thesis by (simp add: fully_bound_all)
  next
    case (Some n)
    then have e: "e = CharacterRef n" by (rule named_Some)
    with 19 have "bound b n" by (simp add: fully_bound_named)
    with 19(2) show ?thesis
      by (auto simp: e and_then_def has_label_named_trial split: sum.splits)
  qed
next
  case (25 b c e)
  show ?case
  proof (cases "named e")
    case None
    with 25 show ?thesis by (simp add: fully_bound_all)
  next
    case (Some n)
    then have e: "e = CharacterRef n" by (rule named_Some)
    with 25 have "bound b n" by (simp add: fully_bound_named)
    with 25(2) show ?thesis
      by (auto simp: e and_then_def has_label_named_trial split: sum.splits)
  qed
qed (auto simp: fully_bound_simps fully_bound_all split: sum.splits)


lemma assign_append: "assign (map_of a) (assign (map_of p) e) = assign (map_of (p @ a)) e"
  by (cases "state e"; cases "map_of p (entity_name e)")
     (simp_all add: assign_def map_add_def split: option.splits)

lemma trial_board_append:
  "trial_board b (map_of (p @ a)) = trial_board (trial_board b (map_of p)) (map_of a)"
  by (simp add: trial_board_def assign_append)

lemma wf_trial_board: "wf_board b \<Longrightarrow> wf_board (trial_board b m)"
  by (simp add: wf_board_def comp_def)

lemma pruned_sound:
  assumes "wf_board b" and "pruned b clues p"
  shows "\<not> consistent b clues (p @ a)"
proof -
  from assms(2) obtain c where c: "c \<in> set clues"
    "fully_bound (trial_board b (map_of p)) c"
    "eval (trial_board b (map_of p)) None c = Inr (Boolean False)"
    by (auto simp: pruned_def evaluate_def)
  have "eval (trial_board b (map_of (p @ a))) None c = eval (trial_board b (map_of p)) None c"
    unfolding trial_board_append
    using agree(1) [OF wf_trial_board [OF assms(1)] c(2)] .
  with c(3) have "eval (trial_board b (map_of (p @ a))) None c \<noteq> Inr (Boolean True)"
    by simp
  with c(1) show ?thesis by (auto simp: consistent_def evaluate_def)
qed

lemma backtrack_filter:
  "wf_board b \<Longrightarrow>
     backtrack b clues p ns = filter (consistent b clues) (map ((@) p) (assignments ns))"
proof (induction ns arbitrary: p)
  case Nil
  then show ?case by simp
next
  case (Cons n ns)
  have step: "(if pruned b clues (p @ [(n, l)]) then []
               else backtrack b clues (p @ [(n, l)]) ns) =
              filter (consistent b clues) (map ((@) p) (map ((#) (n, l)) (assignments ns)))" for l
  proof -
    define q where "q = p @ [(n, l)]"
    have shift: "map ((@) (p @ [(n, l)])) (assignments ns) =
                 map ((@) p) (map ((#) (n, l)) (assignments ns))"
      by simp
    have main: "(if pruned b clues q then [] else backtrack b clues q ns) =
            filter (consistent b clues) (map ((@) q) (assignments ns))"
    proof (cases "pruned b clues q")
      case True
      then have "\<not> consistent b clues (q @ a)" for a
        using pruned_sound [OF Cons.prems] by blast
      then have "filter (consistent b clues) (map ((@) q) (assignments ns)) = []"
        by (simp add: filter_empty_conv)
      with True show ?thesis by simp
    next
      case False
      with Cons.IH [OF Cons.prems, of q] show ?thesis by simp
    qed
    show ?thesis using main unfolding q_def shift .
  qed
  show ?case by (simp add: step del: map_map)
qed

lemma backtracking_models_eq:
  "wf_board b \<Longrightarrow> backtracking_models b clues = enumerate_models b clues"
proof -
  have "(@) [] = (\<lambda>a :: (string \<times> label) list. a)"
    by (simp add: fun_eq_iff)
  then show "wf_board b \<Longrightarrow> backtracking_models b clues = enumerate_models b clues"
    by (simp add: backtracking_models_def enumerate_models_def backtrack_filter)
qed

lemma assignments_keys: "a \<in> set (assignments ns) \<longleftrightarrow> map fst a = ns"
proof (induction ns arbitrary: a)
  case Nil
  then show ?case by auto
next
  case (Cons n ns)
  show ?case
  proof
    assume "a \<in> set (assignments (n # ns))"
    then show "map fst a = n # ns" using Cons.IH by auto
  next
    assume k: "map fst a = n # ns"
    then obtain l a' where a: "a = (n, l) # a'" "map fst a' = ns"
      by (cases a) auto
    then have "a' \<in> set (assignments ns)" using Cons.IH by simp
    with a show "a \<in> set (assignments (n # ns))"
      by (cases l) auto
  qed
qed

lemma set_unresolved: "set (unresolved b) = unresolved_entities b"
  by (auto simp: unresolved_def unresolved_entities_def)











subsection \<open>The evaluations of the solver\<close>


























subsection \<open>Backtracking and full enumeration\<close>

text \<open>
  C2. On every board that satisfies the Board invariant, incremental backtracking (names
  assigned one at a time in row-major order, a branch pruned as soon as a fully bound clue
  evaluates to false) finds the same list of consistent models as the filter over all 2^n
  total assignments, and the solver's result is the same.
\<close>

theorem backtracking_same_as_enumeration:
  "wf_board b \<Longrightarrow>
     length (assignments (map entity_name (unresolved b))) = 2 ^ length (unresolved b) \<and>
     backtracking_models b clues = enumerate_models b clues \<and>
     solve_by_backtracking b clues = solve_by_enumeration b clues"
  by (simp add: backtracking_models_eq solve_by_backtracking_def solve_by_enumeration_def
      length_assignments)

theorem backtracking_same_as_enumeration_witness:
  "wf_board board22 \<and>
   pruned board22 [b_is_criminal, two_criminals] [(''B'', Innocent)] \<and>
   solve_by_backtracking board22 [b_is_criminal, two_criminals] = CERTAIN_MOVE ''B'' Criminal \<and>
   solve_by_enumeration board22 [b_is_criminal, two_criminals] = CERTAIN_MOVE ''B'' Criminal"
proof -
  have w: "wf_board board22" by code_simp
  have p: "pruned board22 [b_is_criminal, two_criminals] [(''B'', Innocent)]" by code_simp
  have s: "solve_by_backtracking board22 [b_is_criminal, two_criminals] = CERTAIN_MOVE ''B'' Criminal"
    by code_simp
  from backtracking_same_as_enumeration [OF w, of "[b_is_criminal, two_criminals]"] s
  have "solve_by_enumeration board22 [b_is_criminal, two_criminals] = CERTAIN_MOVE ''B'' Criminal"
    by simp
  with w p s show ?thesis by blast
qed

subsection \<open>The certain move\<close>

lemma distinct_map_insort_key:
  "distinct (map f (insort_key k x xs)) \<longleftrightarrow> f x \<notin> f ` set xs \<and> distinct (map f xs)"
  by (induction xs) (auto simp: set_insort_key)

lemma distinct_map_sort_key:
  "distinct (map f (sort_key k xs)) = distinct (map f xs)"
  by (induction xs) (simp_all add: distinct_map_insort_key)

lemma distinct_unresolved:
  assumes "wf_board b"
  shows "distinct (map entity_name (unresolved b))" and "distinct (map position (unresolved b))"
  using assms
  by (simp_all add: unresolved_def distinct_map_sort_key wf_board_def distinct_map_filter)

lemma sorted_unresolved: "sorted (map position (unresolved b))"
  by (simp add: unresolved_def)

lemma model_enumerated:
  assumes "wf_board b"
  shows "is_model b clues m \<longleftrightarrow> (\<exists>a \<in> set (enumerate_models b clues). map_of a = m)"
proof
  let ?ns = "map entity_name (unresolved b)"
  assume m: "is_model b clues m"
  let ?a = "map (\<lambda>n. (n, the (m n))) ?ns"
  from m have dom: "set ?ns = dom m"
    by (simp add: is_model_def set_unresolved [symmetric])
  then have eq: "map_of ?a = m" by (rule map_of_map_keys)
  have "map fst ?a = ?ns" by (simp add: comp_def)
  then have "?a \<in> set (assignments ?ns)" by (simp only: assignments_keys)
  moreover from m have "consistent b clues ?a"
    unfolding consistent_def eq by (simp add: is_model_def)
  ultimately have "?a \<in> set (enumerate_models b clues)"
    by (simp add: enumerate_models_def)
  with eq show "\<exists>a \<in> set (enumerate_models b clues). map_of a = m" by blast
next
  assume "\<exists>a \<in> set (enumerate_models b clues). map_of a = m"
  then obtain a where a: "a \<in> set (assignments (map entity_name (unresolved b)))"
    "consistent b clues a" "map_of a = m"
    by (auto simp: enumerate_models_def)
  from a(1) have "map fst a = map entity_name (unresolved b)"
    by (simp add: assignments_keys)
  then have "fst ` set a = entity_name ` unresolved_entities b"
    by (metis set_map set_unresolved)
  then have "dom m = entity_name ` unresolved_entities b"
    using a(3) by (simp add: dom_map_of_conv_image_fst [symmetric])
  with a(2,3) show "is_model b clues m"
    by (auto simp: is_model_def consistent_def)
qed

lemma forced_enumerated:
  assumes "wf_board b"
  shows "forced b clues n l \<longleftrightarrow> (\<forall>a \<in> set (enumerate_models b clues). map_of a n = Some l)"
  unfolding forced_def model_enumerated [OF assms] by blast

lemma forced_label_iff:
  "forced_label ms n = Some l \<longleftrightarrow> ms \<noteq> [] \<and> (\<forall>a \<in> set ms. map_of a n = Some l)"
  by (cases ms) (auto simp: forced_label_def split: option.splits)

lemma first_forced_None:
  "first_forced ms us = None \<longleftrightarrow> (\<forall>e \<in> set us. forced_label ms (entity_name e) = None)"
  by (induction us) (auto split: option.splits)

lemma first_forced_Some:
  "first_forced ms us = Some (n, l) \<longleftrightarrow>
     (\<exists>pre e post. us = pre @ e # post \<and> entity_name e = n \<and> forced_label ms n = Some l \<and>
        (\<forall>e' \<in> set pre. forced_label ms (entity_name e') = None))"
proof (induction us)
  case Nil
  then show ?case by simp
next
  case (Cons u us)
  show ?case
  proof (cases "forced_label ms (entity_name u)")
    case None
    have "(\<exists>pre e post. u # us = pre @ e # post \<and> entity_name e = n \<and> forced_label ms n = Some l \<and>
        (\<forall>e' \<in> set pre. forced_label ms (entity_name e') = None)) \<longleftrightarrow>
      (\<exists>pre e post. us = pre @ e # post \<and> entity_name e = n \<and> forced_label ms n = Some l \<and>
        (\<forall>e' \<in> set pre. forced_label ms (entity_name e') = None))" (is "?L \<longleftrightarrow> ?R")
    proof
      assume ?L
      then obtain pre e post where p: "u # us = pre @ e # post" "entity_name e = n"
        "forced_label ms n = Some l" "\<forall>e' \<in> set pre. forced_label ms (entity_name e') = None"
        by blast
      with None obtain pre' where "pre = u # pre'"
        by (cases pre) auto
      with p show ?R by auto
    next
      assume ?R
      then obtain pre e post where p: "us = pre @ e # post" "entity_name e = n"
        "forced_label ms n = Some l" "\<forall>e' \<in> set pre. forced_label ms (entity_name e') = None"
        by blast
      with None have "u # us = (u # pre) @ e # post \<and> entity_name e = n \<and> forced_label ms n = Some l \<and>
        (\<forall>e' \<in> set (u # pre). forced_label ms (entity_name e') = None)"
        by simp
      then show ?L by blast
    qed
    with None Cons.IH show ?thesis by simp
  next
    case (Some l')
    have "(\<exists>pre e post. u # us = pre @ e # post \<and> entity_name e = n \<and> forced_label ms n = Some l \<and>
        (\<forall>e' \<in> set pre. forced_label ms (entity_name e') = None)) \<longleftrightarrow>
        (entity_name u = n \<and> l' = l)" (is "?L \<longleftrightarrow> ?R")
    proof
      assume ?L
      then obtain pre e post where p: "u # us = pre @ e # post" "entity_name e = n"
        "forced_label ms n = Some l" "\<forall>e' \<in> set pre. forced_label ms (entity_name e') = None"
        by blast
      with Some have "pre = []" by (cases pre) auto
      with p Some show ?R by auto
    next
      assume ?R
      with Some have "u # us = [] @ u # us \<and> entity_name u = n \<and> forced_label ms n = Some l \<and>
        (\<forall>e' \<in> set []. forced_label ms (entity_name e') = None)"
        by simp
      then show ?L by blast
    qed
    with Some show ?thesis by auto
  qed
qed

lemma row_major_le: "row_major p q \<longleftrightarrow> p \<le> q"
  by (auto simp: row_major_def less_eq_prod_def)

lemma solve_enumeration: "wf_board b \<Longrightarrow> solve b clues = solve_by_enumeration b clues"
  by (simp add: solve_def solve_by_backtracking_def solve_by_enumeration_def backtracking_models_eq)

lemma sorted_split_le:
  assumes "sorted (map f (pre @ e # post))" and "e' \<in> set post"
  shows "f e \<le> f e'"
  using assms by (auto simp: sorted_append)

lemma unsat_iff:
  assumes "wf_board b"
  shows "solve b clues = UNSAT \<longleftrightarrow>
           unresolved_entities b \<noteq> {} \<and> (\<nexists>m. is_model b clues m)"
proof -
  have m: "(\<nexists>m. is_model b clues m) \<longleftrightarrow> enumerate_models b clues = []"
    unfolding model_enumerated [OF assms] by (cases "enumerate_models b clues") auto
  have u: "unresolved_entities b = {} \<longleftrightarrow> unresolved b = []"
    using set_unresolved [of b] by auto
  show ?thesis
    unfolding m u
    by (auto simp: solve_enumeration [OF assms] solve_by_enumeration_def certainty_def
        split: option.splits)
qed

text \<open>
  C1. On every board that satisfies the Board invariant, with clues that have at least one
  consistent model: the solver returns the certain move of an entity \<open>n\<close> with label \<open>l\<close>
  exactly when \<open>n\<close> is an unresolved entity that every consistent model assigns \<open>l\<close> and
  that comes first, in row-major order of positions, among the unresolved entities forced
  to some label; it returns NO_CERTAIN_MOVE exactly when no unresolved entity is forced;
  and it returns neither UNSAT nor TIMED_OUT.
\<close>

theorem certain_move_iff_forced:
  assumes wf: "wf_board b" and ex: "\<exists>m. is_model b clues m"
  shows "((\<exists>n l. solve b clues = CERTAIN_MOVE n l) \<longleftrightarrow>
           (\<exists>e \<in> unresolved_entities b. \<exists>l. forced b clues (entity_name e) l)) \<and>
         (solve b clues = CERTAIN_MOVE n l \<longleftrightarrow>
           (\<exists>e \<in> unresolved_entities b. entity_name e = n \<and> forced b clues n l \<and>
              (\<forall>e' \<in> unresolved_entities b. (\<exists>l'. forced b clues (entity_name e') l') \<longrightarrow>
                 row_major (position e) (position e')))) \<and>
         (solve b clues = NO_CERTAIN_MOVE \<longleftrightarrow>
           (\<forall>e \<in> unresolved_entities b. \<forall>l. \<not> forced b clues (entity_name e) l)) \<and>
         solve b clues \<noteq> UNSAT \<and> solve b clues \<noteq> TIMED_OUT"
proof -
  let ?ms = "enumerate_models b clues"
  let ?us = "unresolved b"
  from ex have ms: "?ms \<noteq> []"
    using model_enumerated [OF wf] by fastforce
  have fl: "forced_label ?ms k = Some j \<longleftrightarrow> forced b clues k j" for k j
    using ms by (simp add: forced_label_iff forced_enumerated [OF wf])
  have fn: "forced_label ?ms k = None \<longleftrightarrow> (\<forall>j. \<not> forced b clues k j)" for k
    using fl [of k] by (cases "forced_label ?ms k") auto
  have U: "set ?us = unresolved_entities b" by (rule set_unresolved)
  show ?thesis
  proof (cases "?us = []")
    case True
    then have "unresolved_entities b = {}" using U by simp
    with True show ?thesis
      by (simp add: solve_enumeration [OF wf] solve_by_enumeration_def)
  next
    case False
    then have s: "solve b clues =
        (case first_forced ?ms ?us of Some (n, l) \<Rightarrow> CERTAIN_MOVE n l | None \<Rightarrow> NO_CERTAIN_MOVE)"
      using ms by (simp add: solve_enumeration [OF wf] solve_by_enumeration_def certainty_def)
    have certain: "solve b clues = CERTAIN_MOVE n l \<longleftrightarrow> first_forced ?ms ?us = Some (n, l)"
      unfolding s by (auto split: option.splits)
    have none: "solve b clues = NO_CERTAIN_MOVE \<longleftrightarrow> first_forced ?ms ?us = None"
      unfolding s by (auto split: option.splits)
    have A: "first_forced ?ms ?us = Some (n, l) \<longleftrightarrow>
           (\<exists>e \<in> unresolved_entities b. entity_name e = n \<and> forced b clues n l \<and>
              (\<forall>e' \<in> unresolved_entities b. (\<exists>l'. forced b clues (entity_name e') l') \<longrightarrow>
                 row_major (position e) (position e')))" (is "?L \<longleftrightarrow> ?R")
    proof
      assume ?L
      then obtain pre e post where p: "?us = pre @ e # post" "entity_name e = n"
        "forced_label ?ms n = Some l" "\<forall>e' \<in> set pre. forced_label ?ms (entity_name e') = None"
        unfolding first_forced_Some by blast
      from p(1) U have eU: "e \<in> unresolved_entities b"
        by (metis in_set_conv_decomp)
      have srt: "sorted (map position (pre @ e # post))"
        using sorted_unresolved [of b] p(1) by simp
      have "row_major (position e) (position e')"
        if "e' \<in> unresolved_entities b" "forced b clues (entity_name e') l'" for e' l'
      proof -
        from that(1) U p(1) have "e' \<in> set pre \<or> e' = e \<or> e' \<in> set post" by auto
        moreover from that(2) p(4) have "e' \<notin> set pre" using fn by blast
        ultimately show ?thesis
          using sorted_split_le [OF srt] by (auto simp: row_major_le)
      qed
      with eU p(2,3) show ?R using fl by blast
    next
      assume ?R
      then obtain e where e: "e \<in> unresolved_entities b" "entity_name e = n" "forced b clues n l"
        "\<forall>e' \<in> unresolved_entities b. (\<exists>l'. forced b clues (entity_name e') l') \<longrightarrow>
            row_major (position e) (position e')"
        by blast
      from e(1,2,3) have "first_forced ?ms ?us \<noteq> None"
        using U fl [of n l] by (auto simp: first_forced_None)
      then obtain n' l' where f: "first_forced ?ms ?us = Some (n', l')" by auto
      then obtain pre e0 post where p: "?us = pre @ e0 # post" "entity_name e0 = n'"
        "forced_label ?ms n' = Some l'" "\<forall>e' \<in> set pre. forced_label ?ms (entity_name e') = None"
        unfolding first_forced_Some by blast
      from p(1) U have e0U: "e0 \<in> unresolved_entities b"
        by (metis in_set_conv_decomp)
      have srt: "sorted (map position (pre @ e0 # post))"
        using sorted_unresolved [of b] p(1) by simp
      have dp: "distinct (map position (pre @ e0 # post))"
        using distinct_unresolved(2) [OF wf] p(1) by simp
      from e(1) U p(1) have "e \<in> set pre \<or> e = e0 \<or> e \<in> set post" by auto
      moreover from e(2,3) p(4) have "e \<notin> set pre" using fn by blast
      moreover have "e = e0" if "e \<in> set post"
      proof -
        from that have "position e0 \<le> position e" using sorted_split_le [OF srt] by blast
        moreover from e(4) e0U p(2,3) have "position e \<le> position e0"
          using fl row_major_le by blast
        ultimately have "position e = position e0" by simp
        moreover from that have "position e \<in> position ` set post" by blast
        ultimately show ?thesis using dp by auto
      qed
      ultimately have "e = e0" by blast
      with e(2) p(2) have "n' = n" by simp
      moreover from e(3) p(3) have "l' = l" using fl [of n l] \<open>n' = n\<close> by simp
      ultimately show ?L using f by simp
    qed
    have B: "first_forced ?ms ?us = None \<longleftrightarrow>
        (\<forall>e \<in> unresolved_entities b. \<forall>l. \<not> forced b clues (entity_name e) l)"
      unfolding first_forced_None U using fn by blast
    have "solve b clues \<noteq> UNSAT" "solve b clues \<noteq> TIMED_OUT"
      unfolding s by (auto split: option.splits)
    moreover have "(\<exists>n l. solve b clues = CERTAIN_MOVE n l) \<longleftrightarrow> solve b clues \<noteq> NO_CERTAIN_MOVE"
      unfolding s by (auto split: option.splits)
    ultimately show ?thesis using A B certain none by simp
  qed
qed

theorem certain_move_iff_forced_witness:
  "wf_board board21 \<and>
   is_model board21 [clueA] [''B'' \<mapsto> Innocent] \<and>
   solve board21 [clueA] = CERTAIN_MOVE ''B'' Innocent \<and>
   forced board21 [clueA] ''B'' Innocent \<and>
   wf_board board22 \<and>
   is_model board22 [two_criminals] [''B'' \<mapsto> Innocent, ''C'' \<mapsto> Criminal] \<and>
   solve board22 [two_criminals] = NO_CERTAIN_MOVE \<and>
   \<not> forced board22 [two_criminals] ''B'' Innocent"
proof -
  have w1: "wf_board board21" by code_simp
  have e1: "evaluate clueA (trial_board board21 [''B'' \<mapsto> Innocent]) = Inr (Boolean True)"
    by code_simp
  have "unresolved board21 =
      [\<lparr>entity_name = ''B'', entity_profession = ''judge'', position = (1, 0), state = Unresolved\<rparr>]"
    by code_simp
  then have n1: "entity_name ` unresolved_entities board21 = {''B''}"
    by (simp add: set_unresolved [symmetric])
  have m1: "is_model board21 [clueA] [''B'' \<mapsto> Innocent]"
    using e1 n1 by (simp add: is_model_def)
  have s1: "solve board21 [clueA] = CERTAIN_MOVE ''B'' Innocent" by code_simp
  from certain_move_iff_forced [OF w1, of "[clueA]" "''B''" Innocent] m1 s1
  have f1: "forced board21 [clueA] ''B'' Innocent" by blast
  have w2: "wf_board board22" by code_simp
  have e2: "evaluate two_criminals (trial_board board22 [''B'' \<mapsto> Innocent, ''C'' \<mapsto> Criminal]) =
      Inr (Boolean True)"
    by code_simp
  have u2: "unresolved board22 =
      [\<lparr>entity_name = ''B'', entity_profession = ''judge'', position = (0, 1), state = Unresolved\<rparr>,
       \<lparr>entity_name = ''C'', entity_profession = ''clerk'', position = (1, 0), state = Unresolved\<rparr>]"
    by code_simp
  then have n2: "entity_name ` unresolved_entities board22 = {''B'', ''C''}"
    by (simp add: set_unresolved [symmetric])
  have m2: "is_model board22 [two_criminals] [''B'' \<mapsto> Innocent, ''C'' \<mapsto> Criminal]"
    using e2 n2 by (auto simp: is_model_def)
  have s2: "solve board22 [two_criminals] = NO_CERTAIN_MOVE" by code_simp
  have b2: "\<lparr>entity_name = ''B'', entity_profession = ''judge'', position = (0, 1), state = Unresolved\<rparr>
      \<in> unresolved_entities board22"
    using u2 by (simp add: set_unresolved [symmetric])
  from certain_move_iff_forced [OF w2, of "[two_criminals]" "''B''" Innocent] m2 s2
  have "\<forall>e \<in> unresolved_entities board22. \<forall>l. \<not> forced board22 [two_criminals] (entity_name e) l"
    by blast
  with b2 have f2: "\<not> forced board22 [two_criminals] ''B'' Innocent"
    by fastforce
  from w1 m1 s1 f1 w2 m2 s2 f2 show ?thesis by blast
qed

end
